theory Spec2Isabelle
  imports Complex_Main
begin

section \<open>The JavaScript values the weather bot computes with\<close>

subsection \<open>Numbers\<close>

text \<open>
  A JavaScript number. Finite values are kept as exact reals (the model neither rounds nor
  overflows); the three special values are kept apart, since \<open>parseFloat\<close> produces
  them from ordinary text and every comparison with \<open>NaN\<close> is false.
\<close>

datatype number = NaN | PosInfinity | NegInfinity | Num real

text \<open>\<open>a < b\<close> on numbers.\<close>

fun num_lt :: "number \<Rightarrow> number \<Rightarrow> bool" where
  "num_lt (Num a) (Num b) = (a < b)"
| "num_lt (Num a) PosInfinity = True"
| "num_lt NegInfinity (Num b) = True"
| "num_lt NegInfinity PosInfinity = True"
| "num_lt _ _ = False"

text \<open>\<open>a >= b\<close> on numbers.\<close>

fun num_ge :: "number \<Rightarrow> number \<Rightarrow> bool" where
  "num_ge (Num a) (Num b) = (a \<ge> b)"
| "num_ge PosInfinity (Num b) = True"
| "num_ge PosInfinity PosInfinity = True"
| "num_ge PosInfinity NegInfinity = True"
| "num_ge (Num a) NegInfinity = True"
| "num_ge NegInfinity NegInfinity = True"
| "num_ge _ _ = False"

text \<open>\<open>a - b\<close> on numbers.\<close>

fun num_sub :: "number \<Rightarrow> number \<Rightarrow> number" where
  "num_sub (Num a) (Num b) = Num (a - b)"
| "num_sub (Num a) PosInfinity = NegInfinity"
| "num_sub (Num a) NegInfinity = PosInfinity"
| "num_sub PosInfinity (Num b) = PosInfinity"
| "num_sub PosInfinity NegInfinity = PosInfinity"
| "num_sub NegInfinity (Num b) = NegInfinity"
| "num_sub NegInfinity PosInfinity = NegInfinity"
| "num_sub _ _ = NaN"

text \<open>
  A loosely typed field of a raw provider record (the source reads them from \<open>any\<close>):
  absent, a number, or a string.
\<close>

datatype jsval = Undefined | JNumber number | JString string

fun truthy :: "jsval \<Rightarrow> bool" where
  "truthy Undefined = False"
| "truthy (JNumber n) = (n \<noteq> NaN \<and> n \<noteq> Num 0)"
| "truthy (JString s) = (s \<noteq> [])"

text \<open>The operator \<open>a || b\<close> on loosely typed fields.\<close>

definition js_or :: "jsval \<Rightarrow> jsval \<Rightarrow> jsval" where
  "js_or a b = (if truthy a then a else b)"

text \<open>
  The operator \<open>a || b\<close> on a field that is a string or absent: the empty string is
  falsy, like \<open>undefined\<close>.
\<close>

definition str_or :: "string option \<Rightarrow> string option \<Rightarrow> string option" where
  "str_or a b = (case a of Some s \<Rightarrow> (if s \<noteq> [] then a else b) | None \<Rightarrow> b)"

subsection \<open>Strings\<close>

text \<open>
  Strings are sequences of 8-bit code units (Latin-1), which holds every keyword of the
  scanner, the degree sign \<open>0xB0\<close> included. \<open>toLowerCase\<close> maps the upper case letters of
  that range to their lower case ones and leaves every other unit alone.
\<close>

definition upperCaseLetters :: string where
  "upperCaseLetters = ''ABCDEFGHIJKLMNOPQRSTUVWXYZ'' @
     [CHR 0xC0, CHR 0xC1, CHR 0xC2, CHR 0xC3, CHR 0xC4, CHR 0xC5, CHR 0xC6, CHR 0xC7,
      CHR 0xC8, CHR 0xC9, CHR 0xCA, CHR 0xCB, CHR 0xCC, CHR 0xCD, CHR 0xCE, CHR 0xCF,
      CHR 0xD0, CHR 0xD1, CHR 0xD2, CHR 0xD3, CHR 0xD4, CHR 0xD5, CHR 0xD6,
      CHR 0xD8, CHR 0xD9, CHR 0xDA, CHR 0xDB, CHR 0xDC, CHR 0xDD, CHR 0xDE]"

definition lowerCaseLetters :: string where
  "lowerCaseLetters = ''abcdefghijklmnopqrstuvwxyz'' @
     [CHR 0xE0, CHR 0xE1, CHR 0xE2, CHR 0xE3, CHR 0xE4, CHR 0xE5, CHR 0xE6, CHR 0xE7,
      CHR 0xE8, CHR 0xE9, CHR 0xEA, CHR 0xEB, CHR 0xEC, CHR 0xED, CHR 0xEE, CHR 0xEF,
      CHR 0xF0, CHR 0xF1, CHR 0xF2, CHR 0xF3, CHR 0xF4, CHR 0xF5, CHR 0xF6,
      CHR 0xF8, CHR 0xF9, CHR 0xFA, CHR 0xFB, CHR 0xFC, CHR 0xFD, CHR 0xFE]"

definition toLowerChar :: "char \<Rightarrow> char" where
  "toLowerChar c =
     (case map_of (zip upperCaseLetters lowerCaseLetters) c of Some l \<Rightarrow> l | None \<Rightarrow> c)"

definition toLowerCase :: "string \<Rightarrow> string" where
  "toLowerCase s = map toLowerChar s"

text \<open>
  \<open>s.startsWith(k)\<close> and \<open>s.includes(k)\<close>; \<open>startsWithBy\<close> compares the units with a
  given relation.
\<close>

fun startsWithBy :: "(char \<Rightarrow> char \<Rightarrow> bool) \<Rightarrow> string \<Rightarrow> string \<Rightarrow> bool" where
  "startsWithBy eq s [] = True"
| "startsWithBy eq [] (k # ks) = False"
| "startsWithBy eq (c # cs) (k # ks) = (if eq c k then startsWithBy eq cs ks else False)"

definition startsWith :: "string \<Rightarrow> string \<Rightarrow> bool" where
  "startsWith s k = startsWithBy (\<lambda>c d. c = d) s k"

fun includesStr :: "string \<Rightarrow> string \<Rightarrow> bool" where
  "includesStr [] k = (k = [])"
| "includesStr (c # cs) k = (if startsWith (c # cs) k then True else includesStr cs k)"

text \<open>Two units are the same letter when case is ignored.\<close>

definition sameLetter :: "char \<Rightarrow> char \<Rightarrow> bool" where
  "sameLetter c d = (toLowerChar c = toLowerChar d)"

text \<open>The classes \<open>\d\<close> and \<open>\s\<close> of a regular expression, in the Latin-1 range.\<close>

definition isDigit :: "char \<Rightarrow> bool" where
  "isDigit c = (c \<in> set ''0123456789'')"

definition isSpace :: "char \<Rightarrow> bool" where
  "isSpace c = (c \<in> set [CHR 0x09, CHR 0x0A, CHR 0x0B, CHR 0x0C, CHR 0x0D, CHR 0x20, CHR 0xA0])"

definition digitValue :: "char \<Rightarrow> nat" where
  "digitValue c = (case map_of (zip ''0123456789'' [0, 1, 2, 3, 4, 5, 6, 7, 8, 9]) c of
                     Some n \<Rightarrow> n | None \<Rightarrow> 0)"

definition digitsValue :: "string \<Rightarrow> nat" where
  "digitsValue ds = fold (\<lambda>c n. 10 * n + digitValue c) ds 0"

definition digitChar :: "nat \<Rightarrow> char" where
  "digitChar n = ''0123456789'' ! (n mod 10)"

text \<open>Decimal text of a natural number, as a template literal prints it.\<close>

function showNat :: "nat \<Rightarrow> string" where
  "showNat n = (if n < 10 then [digitChar n] else showNat (n div 10) @ [digitChar n])"
  by pat_completeness auto
termination
  by (relation "measure id") auto

subsection \<open>parseFloat\<close>

text \<open>
  The exponent part of a decimal literal at the head of the text: \<open>e\<close> or \<open>E\<close>, an
  optional sign and at least one digit; 0 when the text does not start with one.
\<close>

definition exponentPart :: "string \<Rightarrow> int" where
  "exponentPart r =
     (case r of
        [] \<Rightarrow> 0
      | c # r1 \<Rightarrow>
          if c = CHR ''e'' \<or> c = CHR ''E'' then
            (case r1 of
               [] \<Rightarrow> 0
             | s # r2 \<Rightarrow>
                 if s = CHR ''-'' then
                   (if takeWhile isDigit r2 = [] then 0
                    else - int (digitsValue (takeWhile isDigit r2)))
                 else if s = CHR ''+'' then int (digitsValue (takeWhile isDigit r2))
                 else int (digitsValue (takeWhile isDigit r1)))
          else 0)"

definition scale10 :: "real \<Rightarrow> int \<Rightarrow> real" where
  "scale10 x e = (if 0 \<le> e then x * 10 ^ nat e else x / 10 ^ nat (- e))"

text \<open>
  \<open>parseFloat\<close> on a string: leading white space is skipped, the longest prefix that is a
  decimal literal is read, and text with no such prefix gives \<open>NaN\<close>. The value of the
  literal is exact: a literal beyond the range of a double, which the engine reads as
  \<open>Infinity\<close> or as 0, and the rounding of the others are outside the model.
\<close>

definition parseFloatString :: "string \<Rightarrow> number" where
  "parseFloatString s =
     (let t = dropWhile isSpace s;
          neg = startsWith t ''-'';
          u = (if startsWith t ''-'' \<or> startsWith t ''+'' then tl t else t)
      in if startsWith u ''Infinity'' then (if neg then NegInfinity else PosInfinity)
         else
           let ip = takeWhile isDigit u;
               r1 = dropWhile isDigit u;
               fp = (if startsWith r1 ''.'' then takeWhile isDigit (tl r1) else []);
               r2 = (if startsWith r1 ''.'' then dropWhile isDigit (tl r1) else r1)
           in if ip = [] \<and> fp = [] then NaN
              else
                let m = real (digitsValue ip) + real (digitsValue fp) / 10 ^ length fp;
                    v = scale10 m (exponentPart r2)
                in Num (if neg then - v else v))"

text \<open>
  \<open>parseFloat\<close> on a loosely typed field: a number prints and reads back as itself, and
  \<open>undefined\<close> prints as text with no numeric prefix.
\<close>

fun parseFloat :: "jsval \<Rightarrow> number" where
  "parseFloat Undefined = NaN"
| "parseFloat (JNumber n) = n"
| "parseFloat (JString s) = parseFloatString s"

subsection \<open>Errors\<close>

datatype error = Error string | RangeError string | TypeError string | SyntaxError string

subsection \<open>Dates\<close>

text \<open>
  A \<open>Date\<close> object holds a time value, the milliseconds since the epoch in UTC, or is an
  invalid date (\<open>None\<close>).
\<close>

type_synonym Date = "int option"

definition msPerDay :: int where
  "msPerDay = 86400000"

text \<open>
  Year, month and day of the proleptic Gregorian calendar from the day number, computed in
  steps: the era of 400 years and the day of the era; the year of the era; the day of the
  year, counted from 1 March; the month, counted from March; the date.
\<close>

definition civilOfMonth :: "int \<Rightarrow> int \<Rightarrow> int \<Rightarrow> int \<times> int \<times> int" where
  "civilOfMonth y doy mp =
     (if mp < 10 then (y, mp + 3, doy - (153 * mp + 2) div 5 + 1)
      else (y + 1, mp - 9, doy - (153 * mp + 2) div 5 + 1))"

definition civilOfDayOfYear :: "int \<Rightarrow> int \<Rightarrow> int \<times> int \<times> int" where
  "civilOfDayOfYear y doy = civilOfMonth y doy ((5 * doy + 2) div 153)"

definition civilOfYearOfEra :: "int \<Rightarrow> int \<Rightarrow> int \<Rightarrow> int \<times> int \<times> int" where
  "civilOfYearOfEra era doe yoe =
     civilOfDayOfYear (yoe + era * 400) (doe - (365 * yoe + yoe div 4 - yoe div 100))"

definition civilOfEra :: "int \<Rightarrow> int \<Rightarrow> int \<times> int \<times> int" where
  "civilOfEra era doe =
     civilOfYearOfEra era doe ((doe - doe div 1460 + doe div 36524 - doe div 146096) div 365)"

definition civilFromDays :: "int \<Rightarrow> int \<times> int \<times> int" where
  "civilFromDays z = civilOfEra ((z + 719468) div 146097) ((z + 719468) mod 146097)"

text \<open>The day number of a calendar date.\<close>

definition daysFromCivil :: "int \<Rightarrow> int \<Rightarrow> int \<Rightarrow> int" where
  "daysFromCivil y m d =
     (if m \<le> 2
      then ((y - 1) div 400) * 146097 + ((y - 1) mod 400) * 365 + ((y - 1) mod 400) div 4 -
           ((y - 1) mod 400) div 100 + (153 * (m + 9) + 2) div 5 + d - 1 - 719468
      else (y div 400) * 146097 + (y mod 400) * 365 + (y mod 400) div 4 -
           (y mod 400) div 100 + (153 * (m - 3) + 2) div 5 + d - 1 - 719468)"

definition pad2 :: "nat \<Rightarrow> string" where
  "pad2 n = [digitChar (n div 10), digitChar n]"

definition pad3 :: "nat \<Rightarrow> string" where
  "pad3 n = [digitChar (n div 100), digitChar (n div 10), digitChar n]"

definition pad4 :: "nat \<Rightarrow> string" where
  "pad4 n = [digitChar (n div 1000), digitChar (n div 100), digitChar (n div 10), digitChar n]"

definition pad6 :: "nat \<Rightarrow> string" where
  "pad6 n = [digitChar (n div 100000), digitChar (n div 10000), digitChar (n div 1000),
             digitChar (n div 100), digitChar (n div 10), digitChar n]"

definition isoYear :: "int \<Rightarrow> string" where
  "isoYear y = (if 0 \<le> y \<and> y \<le> 9999 then pad4 (nat y)
                else (if y < 0 then ''-'' else ''+'') @ pad6 (nat \<bar>y\<bar>))"

text \<open>
  \<open>toISOString\<close>: the UTC date and time of a valid date, a \<open>RangeError\<close> for an invalid one.
\<close>

definition isoTime :: "nat \<Rightarrow> string" where
  "isoTime ms =
     pad2 (ms div 3600000) @ '':'' @ pad2 (ms div 60000 mod 60) @ '':'' @
     pad2 (ms div 1000 mod 60) @ ''.'' @ pad3 (ms mod 1000)"

definition isoDay :: "int \<times> int \<times> int \<Rightarrow> string" where
  "isoDay ymd = (case ymd of (y, m, d) \<Rightarrow> isoYear y @ ''-'' @ pad2 (nat m) @ ''-'' @ pad2 (nat d))"

definition toISOString :: "Date \<Rightarrow> error + string" where
  "toISOString dt =
     (case dt of
        None \<Rightarrow> Inl (RangeError ''Invalid time value'')
      | Some t \<Rightarrow>
          Inr (isoDay (civilFromDays (t div msPerDay)) @ ''T'' @
               isoTime (nat (t mod msPerDay)) @ ''Z''))"

text \<open>\<open>s.split('T')[0]\<close>: the text before the first \<open>T\<close>.\<close>

definition splitT0 :: "string \<Rightarrow> string" where
  "splitT0 s = takeWhile (\<lambda>c. c \<noteq> CHR ''T'') s"

text \<open>\<open>d.toISOString().split('T')[0]\<close>, the idiom the bot uses for a calendar date.\<close>

definition isoDate :: "Date \<Rightarrow> error + string" where
  "isoDate dt = (case toISOString dt of Inl e \<Rightarrow> Inl e | Inr s \<Rightarrow> Inr (splitT0 s))"

text \<open>
  What the program takes from the JavaScript host: the \<open>Date\<close> constructor applied to a
  string (the language leaves the reading of text that is not in the ISO format to the
  engine), and the offset of local time from UTC in milliseconds, taken as fixed.
\<close>

record host =
  newDate :: "string \<Rightarrow> Date"
  tzOffset :: int

text \<open>
  \<open>d.setDate(d.getDate() + 1)\<close>: the same local time on the next day. With the fixed
  offset that is 24 hours later; a change of the offset between the two days (daylight
  saving) is outside the model.
\<close>

definition addOneDay :: "int \<Rightarrow> int" where
  "addOneDay t = t + msPerDay"

text \<open>\<open>d.setHours(0, 0, 0, 0)\<close>: midnight of the local day of \<open>t\<close>.\<close>

definition localMidnight :: "host \<Rightarrow> int \<Rightarrow> int" where
  "localMidnight h t = ((t + tzOffset h) div msPerDay) * msPerDay - tzOffset h"

section \<open>The forecast client (class NWSClient)\<close>

record City =
  name :: string
  lat :: real
  lon :: real
  station :: string

text \<open>The table \<open>CITIES\<close>, in the order of the object literal.\<close>

definition CITIES :: "(string \<times> City) list" where
  "CITIES =
     [(''NYC'', \<lparr>name = ''New York City'', lat = 40.7128, lon = - 74.0060, station = ''KNYC''\<rparr>),
      (''LA'', \<lparr>name = ''Los Angeles'', lat = 34.0522, lon = - 118.2437, station = ''KLAX''\<rparr>),
      (''Chicago'', \<lparr>name = ''Chicago'', lat = 41.8781, lon = - 87.6298, station = ''KORD''\<rparr>),
      (''Miami'', \<lparr>name = ''Miami'', lat = 25.7617, lon = - 80.1918, station = ''KMIA''\<rparr>),
      (''Dallas'', \<lparr>name = ''Dallas'', lat = 32.7767, lon = - 96.7970, station = ''KDFW''\<rparr>),
      (''Seattle'', \<lparr>name = ''Seattle'', lat = 47.6062, lon = - 122.3321, station = ''KSEA''\<rparr>)]"

text \<open>
  \<open>CITIES\<close> is an object literal, so the lookup \<open>CITIES[cityCode]\<close> finds, besides the six
  entries of the table, the properties every object inherits from \<open>Object.prototype\<close>.
  Each of those is a function or an object: truthy, and without \<open>lat\<close> or \<open>lon\<close>.
\<close>

definition ObjectPrototypeKeys :: "string list" where
  "ObjectPrototypeKeys =
     [''constructor'', ''__defineGetter__'', ''__defineSetter__'', ''hasOwnProperty'',
      ''__lookupGetter__'', ''__lookupSetter__'', ''isPrototypeOf'', ''propertyIsEnumerable'',
      ''toString'', ''valueOf'', ''__proto__'', ''toLocaleString'']"

datatype property = Own City | Inherited | Missing

definition lookupCITIES :: "string \<Rightarrow> property" where
  "lookupCITIES cityCode =
     (case map_of CITIES cityCode of
        Some c \<Rightarrow> Own c
      | None \<Rightarrow> if cityCode \<in> set ObjectPrototypeKeys then Inherited else Missing)"

record HourlyForecast =
  startTime :: string
  endTime :: string
  temperature :: real
  temperatureUnit :: string
  isDaytime :: bool
  shortForecast :: string

datatype confidence = very_high | high | medium | low

record DailyForecast =
  date :: string
  highTemp :: real
  lowTemp :: real
  confidence :: confidence
  hoursUntil :: int
  dailyShortForecast :: string

record GridPoint =
  office :: string
  gridX :: int
  gridY :: int
  forecastUrl :: string
  forecastHourlyUrl :: string

text \<open>
  What one HTTP exchange can come to: the \<open>fetch\<close>, the decoding of the body or the reading
  of the payload's fields throws; the response is not \<open>ok\<close> (status and status text); or
  the payload arrives.
\<close>

datatype 'a fetched = Threw error | NotOk nat string | Ok 'a

text \<open>
  The requests the client sends. An argument that is \<open>undefined\<close> is \<open>None\<close>.
\<close>

datatype request = PointsRequest "real option" "real option" | UrlRequest string

text \<open>The forecast provider: what it answers to each request.\<close>

record provider =
  points :: "real option \<Rightarrow> real option \<Rightarrow> GridPoint fetched"
  hourly :: "string \<Rightarrow> HourlyForecast list fetched"

text \<open>
  The client object: its cache of grid points, keyed by the coordinate pair (the source's
  key is the text \<open>lat,lon\<close>), and the requests it has sent so far, oldest first.
\<close>

record NWSClient =
  gridPointCache :: "(real option \<times> real option) \<rightharpoonup> GridPoint"
  sent :: "request list"

definition getGridPoint ::
  "provider \<Rightarrow> NWSClient \<Rightarrow> real option \<Rightarrow> real option \<Rightarrow> (error + GridPoint) \<times> NWSClient" where
  "getGridPoint p c la lo =
     (case gridPointCache c (la, lo) of
        Some g \<Rightarrow> (Inr g, c)
      | None \<Rightarrow>
          let c1 = c\<lparr>sent := sent c @ [PointsRequest la lo]\<rparr>
          in (case points p la lo of
                Threw e \<Rightarrow> (Inl e, c1)
              | NotOk st txt \<Rightarrow>
                  (Inl (Error (''NWS API error: '' @ showNat st @ '' '' @ txt)), c1)
              | Ok g \<Rightarrow> (Inr g, c1\<lparr>gridPointCache := (gridPointCache c1)((la, lo) \<mapsto> g)\<rparr>)))"

definition getHourlyForecast ::
  "provider \<Rightarrow> NWSClient \<Rightarrow> real option \<Rightarrow> real option
     \<Rightarrow> (error + HourlyForecast list) \<times> NWSClient" where
  "getHourlyForecast p c la lo =
     (case getGridPoint p c la lo of
        (Inl e, c1) \<Rightarrow> (Inl e, c1)
      | (Inr g, c1) \<Rightarrow>
          let c2 = c1\<lparr>sent := sent c1 @ [UrlRequest (forecastHourlyUrl g)]\<rparr>
          in (case hourly p (forecastHourlyUrl g) of
                Threw e \<Rightarrow> (Inl e, c2)
              | NotOk st txt \<Rightarrow> (Inl (Error (''NWS forecast error: '' @ showNat st)), c2)
              | Ok periods \<Rightarrow> (Inr periods, c2)))"

text \<open>
  The filter of \<open>getDailyHigh\<close>: the periods whose UTC calendar date is the target's. Its
  callback throws on a start time the host reads as an invalid date.
\<close>

fun filterTargetDate :: "host \<Rightarrow> string \<Rightarrow> HourlyForecast list \<Rightarrow> error + HourlyForecast list" where
  "filterTargetDate h targetDateStr [] = Inr []"
| "filterTargetDate h targetDateStr (f # fs) =
     (case isoDate (newDate h (startTime f)) of
        Inl e \<Rightarrow> Inl e
      | Inr forecastDate \<Rightarrow>
          (case filterTargetDate h targetDateStr fs of
             Inl e \<Rightarrow> Inl e
           | Inr rest \<Rightarrow> Inr (if forecastDate = targetDateStr then f # rest else rest)))"

text \<open>\<open>Math.max\<close> and \<open>Math.min\<close> of a first argument and the rest, and \<open>Math.round\<close>.\<close>

definition Math_max :: "real \<Rightarrow> real list \<Rightarrow> real" where
  "Math_max x xs = fold max xs x"

definition Math_min :: "real \<Rightarrow> real list \<Rightarrow> real" where
  "Math_min x xs = fold min xs x"

definition Math_round :: "real \<Rightarrow> int" where
  "Math_round x = \<lfloor>x + 1 / 2\<rfloor>"

text \<open>
  The body of \<open>getDailyHigh\<close> from the point where the hourly forecasts have arrived, with
  the clock reading \<open>now\<close>: an error (thrown), \<open>None\<close> (the source's \<open>null\<close>) or a
  forecast. The time value of the target is read after \<open>toISOString\<close> has succeeded on it,
  that is on a valid date.
\<close>

definition summarizeDay ::
  "host \<Rightarrow> int \<Rightarrow> Date \<Rightarrow> HourlyForecast list \<Rightarrow> error + DailyForecast option" where
  "summarizeDay h now targetDate hourlyForecasts =
     (case isoDate targetDate of
        Inl e \<Rightarrow> Inl e
      | Inr targetDateStr \<Rightarrow>
          (case filterTargetDate h targetDateStr hourlyForecasts of
             Inl e \<Rightarrow> Inl e
           | Inr [] \<Rightarrow> Inr None
           | Inr (f0 # fs) \<Rightarrow>
               let temps = map temperature fs;
                   hours = max 0 (real_of_int (the targetDate - now) / (1000 * 60 * 60));
                   conf = (if hours \<le> 24 then very_high
                           else if hours \<le> 48 then high
                           else if hours \<le> 72 then medium
                           else low);
                   daytimeForecasts = filter isDaytime (f0 # fs)
               in Inr (Some \<lparr>date = targetDateStr,
                              highTemp = Math_max (temperature f0) temps,
                              lowTemp = Math_min (temperature f0) temps,
                              confidence = conf,
                              hoursUntil = Math_round hours,
                              dailyShortForecast =
                                (case daytimeForecasts of
                                   d # _ \<Rightarrow> shortForecast d
                                 | [] \<Rightarrow> shortForecast f0)\<rparr>)))"

text \<open>
  \<open>getDailyHigh(cityCode, targetDate)\<close>: the city is looked up first; a code that finds
  nothing throws before any request is sent.
\<close>

definition getDailyHigh ::
  "host \<Rightarrow> provider \<Rightarrow> NWSClient \<Rightarrow> int \<Rightarrow> string \<Rightarrow> Date
     \<Rightarrow> (error + DailyForecast option) \<times> NWSClient" where
  "getDailyHigh h p c now cityCode targetDate =
     (case lookupCITIES cityCode of
        Missing \<Rightarrow> (Inl (Error (''Unknown city: '' @ cityCode)), c)
      | city \<Rightarrow>
          (case getHourlyForecast p c
                  (case city of Own ct \<Rightarrow> Some (lat ct) | _ \<Rightarrow> None)
                  (case city of Own ct \<Rightarrow> Some (lon ct) | _ \<Rightarrow> None) of
             (Inl e, c1) \<Rightarrow> (Inl e, c1)
           | (Inr hourlyForecasts, c1) \<Rightarrow> (summarizeDay h now targetDate hourlyForecasts, c1)))"

text \<open>\<open>NWSClient.getStdDev\<close>: the dispersion assumed for each confidence tier.\<close>

fun getStdDev :: "confidence \<Rightarrow> real" where
  "getStdDev very_high = 1.5"
| "getStdDev high = 2.0"
| "getStdDev medium = 3.0"
| "getStdDev low = 4.5"

section \<open>The edge detector (edge-detector.ts)\<close>

text \<open>
  Modelled from the spec: the type \<open>TempBucket\<close> of edge-detector.ts, which is not among
  the sources. The spec gives a bucket a temperature range with two optional bounds.
\<close>

record TempBucket =
  lowerBound :: "real option"
  upperBound :: "real option"

text \<open>
  The types \<open>MarketOutcome\<close> and \<open>WeatherMarket\<close> are declared in edge-detector.ts too;
  their fields are the ones the scanner writes where it builds them (\<open>parseOutcomes\<close> and
  \<open>parseWeatherMarket\<close>). A token or market identifier the raw record does not carry is
  \<open>None\<close>.
\<close>

record MarketOutcome =
  tokenId :: "string option"
  bucket :: TempBucket
  price :: number

record WeatherMarket =
  marketId :: "string option"
  conditionId :: "string option"
  city :: string
  cityCode :: string
  targetDate :: string
  outcomes :: "MarketOutcome list"
  question :: "string option"

text \<open>
  Modelled from the spec: the type \<open>WeatherOpportunity\<close> of edge-detector.ts, which is not
  among the sources. The spec lists the market, the city, the target date, the token of the
  bucket, the side, the market price, the fair probability and the edge.
\<close>

datatype side = BuyYes

record WeatherOpportunity =
  oppMarketId :: "string option"
  oppCityCode :: string
  oppTargetDate :: string
  oppTokenId :: "string option"
  oppSide :: side
  marketPrice :: number
  fairProbability :: real
  edge :: number

text \<open>
  Modelled from the spec: the fair probability of a bucket, \<open>Phi((hi - mean) / sigma) -
  Phi((lo - mean) / sigma)\<close>, an absent upper bound counting 1 and an absent lower bound 0.
  \<open>Phi\<close>, the standard normal distribution function, is a parameter.
\<close>

definition bucketProbability :: "(real \<Rightarrow> real) \<Rightarrow> real \<Rightarrow> real \<Rightarrow> TempBucket \<Rightarrow> real" where
  "bucketProbability Phi mean sigma b =
     (case upperBound b of None \<Rightarrow> 1 | Some hi \<Rightarrow> Phi ((hi - mean) / sigma)) -
     (case lowerBound b of None \<Rightarrow> 0 | Some lo \<Rightarrow> Phi ((lo - mean) / sigma))"

text \<open>
  Modelled from the spec: the opportunity the detector reports for one outcome, with
  \<open>edge = fairProbability - marketPrice\<close>.
\<close>

definition opportunityFor ::
  "(real \<Rightarrow> real) \<Rightarrow> WeatherMarket \<Rightarrow> DailyForecast \<Rightarrow> MarketOutcome \<Rightarrow> WeatherOpportunity" where
  "opportunityFor Phi m f out =
     (let fair = bucketProbability Phi (highTemp f) (getStdDev (confidence f)) (bucket out)
      in \<lparr>oppMarketId = marketId m, oppCityCode = cityCode m, oppTargetDate = targetDate m,
          oppTokenId = tokenId out, oppSide = BuyYes, marketPrice = price out,
          fairProbability = fair, edge = num_sub (Num fair) (price out)\<rparr>)"

text \<open>
  Modelled from the spec: the loop of \<open>detectOpportunities\<close> of edge-detector.ts, which is
  not among the sources. Each bucket is evaluated on its own, in the order of the market's
  outcomes, and is reported when its edge reaches the threshold. The constant
  \<open>MIN_EDGE_THRESHOLD\<close> is the first parameter.
\<close>

fun detectEach ::
  "real \<Rightarrow> (real \<Rightarrow> real) \<Rightarrow> WeatherMarket \<Rightarrow> DailyForecast \<Rightarrow> MarketOutcome list
     \<Rightarrow> WeatherOpportunity list" where
  "detectEach thr Phi m f [] = []"
| "detectEach thr Phi m f (out # outs) =
     (if num_ge (edge (opportunityFor Phi m f out)) (Num thr)
      then opportunityFor Phi m f out # detectEach thr Phi m f outs
      else detectEach thr Phi m f outs)"

definition detectOpportunities ::
  "real \<Rightarrow> (real \<Rightarrow> real) \<Rightarrow> WeatherMarket \<Rightarrow> DailyForecast \<Rightarrow> WeatherOpportunity list" where
  "detectOpportunities thr Phi m f = detectEach thr Phi m f (outcomes m)"

section \<open>The weather scanner (weather/scanner.ts)\<close>

definition TEMP_KEYWORDS :: "string list" where
  "TEMP_KEYWORDS =
     [''temperature'', ''high temperature'', ''daily high'', ''degrees'',
      [CHR 0xB0, CHR ''F''], [CHR 0xB0, CHR ''f'']]"

definition CITY_VARIATIONS :: "(string \<times> string list) list" where
  "CITY_VARIATIONS =
     [(''NYC'', [''new york'', ''nyc'', ''manhattan'', ''central park'']),
      (''LA'', [''los angeles'', ''la'', ''lax'']),
      (''Chicago'', [''chicago'', ''ord'']),
      (''Miami'', [''miami'', ''mia'']),
      (''Dallas'', [''dallas'', ''dfw'', ''fort worth'']),
      (''Seattle'', [''seattle'', ''sea''])]"

text \<open>
  A raw outcome and a raw market record, as the exchange lists them. The scanner reads
  them from \<open>any\<close>; the model gives each field the type the scanner uses it at, and
  \<open>None\<close> where the record does not carry it.
\<close>

record RawOutcome =
  r_outcome :: "string option"
  r_name :: "string option"
  r_title :: "string option"
  r_tokenId :: "string option"
  r_token_id :: "string option"
  r_id :: "string option"
  r_price :: jsval
  r_lastTradePrice :: jsval

record RawMarket =
  m_question :: "string option"
  m_title :: "string option"
  m_description :: "string option"
  m_slug :: "string option"
  m_endDate :: "string option"
  m_outcomes :: "RawOutcome list option"
  m_tokens :: "RawOutcome list option"
  m_id :: "string option"
  m_conditionId :: "string option"

text \<open>\<open>a || ''\<close>: the string of a field, the empty string when it is absent.\<close>

definition str_of :: "string option \<Rightarrow> string" where
  "str_of a = (case a of Some s \<Rightarrow> s | None \<Rightarrow> [])"

subsection \<open>Regular expressions\<close>

text \<open>
  The part of the regular expression language the date patterns are written in: a
  literal, the classes \<open>\d\<close> and \<open>\s\<close>, sequence, alternative, the greedy quantifiers
  \<open>{lo,hi}\<close> and \<open>+\<close>, and the expression that never matches (the empty alternative).
\<close>

datatype regex =
    Lit string
  | Digit
  | Space
  | Seq regex regex
  | Alt regex regex
  | Repeat regex nat nat
  | Plus regex
  | Never

text \<open>
  A greedy quantifier over a matcher: one more repetition is tried before stopping, and
  stopping is allowed once the lower bound is used up.
\<close>

function repeatGreedy ::
  "(string \<Rightarrow> string list) \<Rightarrow> nat \<Rightarrow> nat \<Rightarrow> string \<Rightarrow> string list" where
  "repeatGreedy step lo hi s =
     (if hi = 0 then (if lo = 0 then [s] else [])
      else concat (map (repeatGreedy step (lo - 1) (hi - 1)) (step s)) @
           (if lo = 0 then [s] else []))"
  by pat_completeness auto
termination
  by (relation "measure (\<lambda>(step, lo, hi, s). hi)") auto

text \<open>
  Backtracking matching at the head of a text: the texts that can remain after a match,
  in the order in which the engine tries them, so the head of the list is the match it
  reports. The flag is \<open>i\<close>, which compares letters ignoring case. A repetition of \<open>+\<close>
  takes at least one unit each time, so the length of the text bounds it.
\<close>

fun matchHere :: "bool \<Rightarrow> regex \<Rightarrow> string \<Rightarrow> string list" where
  "matchHere i (Lit k) s =
     (if (if i then startsWithBy sameLetter s k else startsWith s k)
      then [drop (length k) s] else [])"
| "matchHere i Digit s = (case s of c # cs \<Rightarrow> (if isDigit c then [cs] else []) | [] \<Rightarrow> [])"
| "matchHere i Space s = (case s of c # cs \<Rightarrow> (if isSpace c then [cs] else []) | [] \<Rightarrow> [])"
| "matchHere i (Seq a b) s = concat (map (matchHere i b) (matchHere i a s))"
| "matchHere i (Alt a b) s = matchHere i a s @ matchHere i b s"
| "matchHere i (Repeat r lo hi) s = repeatGreedy (matchHere i r) lo hi s"
| "matchHere i (Plus r) s = repeatGreedy (matchHere i r) 1 (length s) s"
| "matchHere i Never s = []"

text \<open>
  \<open>text.match(pattern)[0]\<close> for a pattern without the global flag: the match at the
  leftmost position that has one, \<open>None\<close> for \<open>null\<close>.
\<close>

fun matchFirst :: "bool \<Rightarrow> regex \<Rightarrow> string \<Rightarrow> string option" where
  "matchFirst i r [] = (case matchHere i r [] of rest # _ \<Rightarrow> Some [] | [] \<Rightarrow> None)"
| "matchFirst i r (c # cs) =
     (case matchHere i r (c # cs) of
        rest # _ \<Rightarrow> Some (take (length (c # cs) - length rest) (c # cs))
      | [] \<Rightarrow> matchFirst i r cs)"

text \<open>\<open>(k1|k2|...)\<close>: the alternatives in their order.\<close>

definition oneOf :: "string list \<Rightarrow> regex" where
  "oneOf ks = foldr (\<lambda>k r. Alt (Lit k) r) ks Never"

subsection \<open>The date patterns of \<open>extractTargetDate\<close>\<close>

definition monthNames :: "string list" where
  "monthNames =
     [''january'', ''february'', ''march'', ''april'', ''may'', ''june'', ''july'', ''august'',
      ''september'', ''october'', ''november'', ''december'']"

definition monthAbbreviations :: "string list" where
  "monthAbbreviations =
     [''jan'', ''feb'', ''mar'', ''apr'', ''may'', ''jun'', ''jul'', ''aug'', ''sep'', ''oct'',
      ''nov'', ''dec'']"

text \<open>
  The four patterns, each with its flag \<open>i\<close>:
  \<open>/(\d{4}-\d{2}-\d{2})/\<close>, \<open>/(\d{1,2}\/\d{1,2}\/?\d{0,4})/\<close>,
  \<open>/(january|...|december)\s+(\d{1,2})/i\<close> and \<open>/(jan|...|dec)\.?\s+(\d{1,2})/i\<close>.
\<close>

definition datePatterns :: "(bool \<times> regex) list" where
  "datePatterns =
     [(False, Seq (Repeat Digit 4 4) (Seq (Lit ''-'') (Seq (Repeat Digit 2 2)
                (Seq (Lit ''-'') (Repeat Digit 2 2))))),
      (False, Seq (Repeat Digit 1 2) (Seq (Lit ''/'') (Seq (Repeat Digit 1 2)
                (Seq (Repeat (Lit ''/'') 0 1) (Repeat Digit 0 4))))),
      (True, Seq (oneOf monthNames) (Seq (Plus Space) (Repeat Digit 1 2))),
      (True, Seq (oneOf monthAbbreviations)
               (Seq (Repeat (Lit ''.'') 0 1) (Seq (Plus Space) (Repeat Digit 1 2))))]"

text \<open>
  The loop over the patterns: the first pattern that matches and whose match the host
  reads as a valid date decides.
\<close>

fun tryPatterns :: "host \<Rightarrow> string \<Rightarrow> (bool \<times> regex) list \<Rightarrow> string option" where
  "tryPatterns h q [] = None"
| "tryPatterns h q (pat # pats) =
     (case matchFirst (fst pat) (snd pat) q of
        None \<Rightarrow> tryPatterns h q pats
      | Some m0 \<Rightarrow>
          (case isoDate (newDate h m0) of
             Inr d \<Rightarrow> Some d
           | Inl e \<Rightarrow> tryPatterns h q pats))"

text \<open>
  \<open>extractTargetDate(question, market)\<close>, with the clock reading \<open>now\<close>. It throws when the
  record's end date is text the host reads as an invalid date.
\<close>

definition extractTargetDate :: "host \<Rightarrow> int \<Rightarrow> string \<Rightarrow> RawMarket \<Rightarrow> error + string" where
  "extractTargetDate h now q market =
     (if str_of (m_endDate market) \<noteq> [] then isoDate (newDate h (str_of (m_endDate market)))
      else
        (case tryPatterns h q datePatterns of
           Some d \<Rightarrow> Inr d
         | None \<Rightarrow> isoDate (Some (addOneDay now))))"

subsection \<open>Parsing a market\<close>

text \<open>
  \<open>parseOutcomes(market)\<close>. The label parser \<open>parseTempBucket\<close> of edge-detector.ts is not
  among the sources and is the parameter \<open>parseTempBucket\<close>; \<open>None\<close> is its \<open>null\<close>.
\<close>

fun parseEach :: "(string \<Rightarrow> TempBucket option) \<Rightarrow> RawOutcome list \<Rightarrow> MarketOutcome list" where
  "parseEach parseTempBucket [] = []"
| "parseEach parseTempBucket (out # outs) =
     (case parseTempBucket (str_of (str_or (str_or (r_outcome out) (r_name out)) (r_title out))) of
        Some b \<Rightarrow>
          \<lparr>tokenId = str_or (str_or (r_tokenId out) (r_token_id out)) (r_id out),
           bucket = b,
           price = parseFloat (js_or (js_or (r_price out) (r_lastTradePrice out)) (JString ''0.5''))\<rparr>
            # parseEach parseTempBucket outs
      | None \<Rightarrow> parseEach parseTempBucket outs)"

text \<open>\<open>market.outcomes || market.tokens || []\<close>: an array is truthy, the empty one too.\<close>

definition outcomesList :: "RawMarket \<Rightarrow> RawOutcome list" where
  "outcomesList market =
     (case m_outcomes market of
        Some l \<Rightarrow> l
      | None \<Rightarrow> (case m_tokens market of Some l \<Rightarrow> l | None \<Rightarrow> []))"

definition parseOutcomes :: "(string \<Rightarrow> TempBucket option) \<Rightarrow> RawMarket \<Rightarrow> MarketOutcome list" where
  "parseOutcomes parseTempBucket market = parseEach parseTempBucket (outcomesList market)"

text \<open>
  The first two lines of \<open>parseWeatherMarket\<close>: the text that is matched,
  \<open>(market.question || market.title || '').toLowerCase()\<close>, and the keyword test on it.
\<close>

definition questionText :: "RawMarket \<Rightarrow> string" where
  "questionText market = toLowerCase (str_of (str_or (m_question market) (m_title market)))"

definition isTemp :: "RawMarket \<Rightarrow> bool" where
  "isTemp market = list_ex (\<lambda>kw. includesStr (questionText market) (toLowerCase kw)) TEMP_KEYWORDS"

text \<open>
  \<open>parseWeatherMarket(market)\<close>: an error (thrown), \<open>None\<close> (the source's \<open>null\<close>) or a
  market.
\<close>

definition parseWeatherMarket ::
  "host \<Rightarrow> int \<Rightarrow> (string \<Rightarrow> TempBucket option) \<Rightarrow> RawMarket \<Rightarrow> error + WeatherMarket option" where
  "parseWeatherMarket h now parseTempBucket market =
     (let q = questionText market
      in if \<not> isTemp market then Inr None
         else
           (case find (\<lambda>(code, variations). list_ex (\<lambda>v. includesStr q v) variations)
                   CITY_VARIATIONS of
              None \<Rightarrow> Inr None
            | Some (code, variations) \<Rightarrow>
                (case map_of CITIES code of
                   None \<Rightarrow> Inl (TypeError ''Cannot read properties of undefined'')
                 | Some ct \<Rightarrow>
                     (case extractTargetDate h now q market of
                        Inl e \<Rightarrow> Inl e
                      | Inr d \<Rightarrow>
                          if d = [] then Inr None
                          else if parseOutcomes parseTempBucket market = [] then Inr None
                          else Inr (Some \<lparr>marketId = str_or (m_id market) (m_conditionId market),
                                          conditionId = m_conditionId market,
                                          city = name ct,
                                          cityCode = code,
                                          targetDate = d,
                                          outcomes = parseOutcomes parseTempBucket market,
                                          question = str_or (m_question market) (m_title market)\<rparr>)))))"

subsection \<open>Discovery\<close>

text \<open>The market-listing provider: its answer to the tag query and to each keyword query.\<close>

record gamma =
  tagSearch :: "RawMarket list fetched"
  keywordSearch :: "string \<Rightarrow> RawMarket list fetched"

text \<open>The loop of \<open>findTemperatureMarkets\<close> over the records of the tag query.\<close>

fun parseAll ::
  "host \<Rightarrow> int \<Rightarrow> (string \<Rightarrow> TempBucket option) \<Rightarrow> WeatherMarket list \<Rightarrow> RawMarket list
     \<Rightarrow> error + WeatherMarket list" where
  "parseAll h now pt acc [] = Inr acc"
| "parseAll h now pt acc (market # rest) =
     (case parseWeatherMarket h now pt market of
        Inl e \<Rightarrow> Inl e
      | Inr None \<Rightarrow> parseAll h now pt acc rest
      | Inr (Some w) \<Rightarrow> parseAll h now pt (acc @ [w]) rest)"

text \<open>
  The inner loop of \<open>searchBroadly\<close>: a market is added unless one with the same
  \<open>marketId\<close> is there already.
\<close>

fun parseNew ::
  "host \<Rightarrow> int \<Rightarrow> (string \<Rightarrow> TempBucket option) \<Rightarrow> WeatherMarket list \<Rightarrow> RawMarket list
     \<Rightarrow> error + WeatherMarket list" where
  "parseNew h now pt acc [] = Inr acc"
| "parseNew h now pt acc (market # rest) =
     (case parseWeatherMarket h now pt market of
        Inl e \<Rightarrow> Inl e
      | Inr None \<Rightarrow> parseNew h now pt acc rest
      | Inr (Some w) \<Rightarrow>
          if list_ex (\<lambda>x. marketId x = marketId w) acc then parseNew h now pt acc rest
          else parseNew h now pt (acc @ [w]) rest)"

text \<open>The loop of \<open>searchBroadly\<close> over its keywords; a response that is not \<open>ok\<close> is skipped.\<close>

fun searchKeywords ::
  "host \<Rightarrow> int \<Rightarrow> (string \<Rightarrow> TempBucket option) \<Rightarrow> gamma \<Rightarrow> WeatherMarket list \<Rightarrow> string list
     \<Rightarrow> error + WeatherMarket list" where
  "searchKeywords h now pt g acc [] = Inr acc"
| "searchKeywords h now pt g acc (keyword # rest) =
     (case keywordSearch g keyword of
        Threw e \<Rightarrow> Inl e
      | NotOk st txt \<Rightarrow> searchKeywords h now pt g acc rest
      | Ok data \<Rightarrow>
          (case parseNew h now pt acc data of
             Inl e \<Rightarrow> Inl e
           | Inr acc1 \<Rightarrow> searchKeywords h now pt g acc1 rest))"

text \<open>\<open>searchBroadly()\<close>: whatever is thrown inside is caught, and the result is then empty.\<close>

definition searchBroadly ::
  "host \<Rightarrow> int \<Rightarrow> (string \<Rightarrow> TempBucket option) \<Rightarrow> gamma \<Rightarrow> error + WeatherMarket list" where
  "searchBroadly h now pt g =
     (case searchKeywords h now pt g [] [''temperature'', ''high'', ''weather''] of
        Inl e \<Rightarrow> Inr []
      | Inr found \<Rightarrow> Inr found)"

text \<open>
  \<open>findTemperatureMarkets()\<close>: the tag query; when its response is not \<open>ok\<close>, or anything
  is thrown, the broader search.
\<close>

definition findTemperatureMarkets ::
  "host \<Rightarrow> int \<Rightarrow> (string \<Rightarrow> TempBucket option) \<Rightarrow> gamma \<Rightarrow> error + WeatherMarket list" where
  "findTemperatureMarkets h now pt g =
     (case tagSearch g of
        Threw e \<Rightarrow> searchBroadly h now pt g
      | NotOk st txt \<Rightarrow> searchBroadly h now pt g
      | Ok data \<Rightarrow>
          (case parseAll h now pt [] data of
             Inl e \<Rightarrow> searchBroadly h now pt g
           | Inr found \<Rightarrow> Inr found))"

subsection \<open>Refreshing prices\<close>

text \<open>
  The loop of \<open>updateMarketPrices\<close>. \<open>getPrice\<close> of the exchange client (not among the
  sources) is a parameter: for a token it throws or returns a number.
\<close>

fun updateEach :: "(string option \<Rightarrow> error + number) \<Rightarrow> MarketOutcome list \<Rightarrow> MarketOutcome list" where
  "updateEach getPrice [] = []"
| "updateEach getPrice (out # outs) =
     (case getPrice (tokenId out) of
        Inr p \<Rightarrow> out\<lparr>price := (if num_lt (Num 0) p then p else price out)\<rparr>
      | Inl e \<Rightarrow> out)
       # updateEach getPrice outs"

definition updateMarketPrices ::
  "(string option \<Rightarrow> error + number) \<Rightarrow> WeatherMarket \<Rightarrow> error + WeatherMarket" where
  "updateMarketPrices getPrice m = Inr (m\<lparr>outcomes := updateEach getPrice (outcomes m)\<rparr>)"

subsection \<open>The scan\<close>

record WeatherScanResult =
  markets :: "WeatherMarket list"
  forecasts :: "string \<rightharpoonup> DailyForecast"
  opportunities :: "WeatherOpportunity list"
  scannedAt :: string

text \<open>
  Everything outside the scanner that a scan reads: the host, the clock (one reading
  stands for all readings of a scan), the two providers, the price call, the label parser
  of edge-detector.ts, and the two parameters of the detector, its threshold and the
  distribution function.
\<close>

record world =
  jsHost :: host
  clock :: int
  forecastProvider :: provider
  gammaApi :: gamma
  getPrice :: "string option \<Rightarrow> error + number"
  parseTempBucket :: "string \<Rightarrow> TempBucket option"
  MIN_EDGE_THRESHOLD :: real
  normalCdf :: "real \<Rightarrow> real"

text \<open>\<open>getTomorrowDate()\<close>: local midnight of the next day.\<close>

definition getTomorrowDate :: "host \<Rightarrow> int \<Rightarrow> Date" where
  "getTomorrowDate h now = Some (localMidnight h (addOneDay now))"

text \<open>\<open>[...new Set(xs)]\<close>: the distinct elements, each at its first occurrence.\<close>

definition distinctInOrder :: "'a list \<Rightarrow> 'a list" where
  "distinctInOrder xs = rev (remdups (rev xs))"

text \<open>
  The forecast loop of \<open>scan\<close>: a city whose forecast is absent or whose call throws is
  left out of the map.
\<close>

fun fetchForecasts ::
  "world \<Rightarrow> Date \<Rightarrow> NWSClient \<Rightarrow> (string \<rightharpoonup> DailyForecast) \<Rightarrow> string list
     \<Rightarrow> (string \<rightharpoonup> DailyForecast) \<times> NWSClient" where
  "fetchForecasts w scanDate c fm [] = (fm, c)"
| "fetchForecasts w scanDate c fm (code # codes) =
     (case getDailyHigh (jsHost w) (forecastProvider w) c (clock w) code scanDate of
        (Inr (Some f), c1) \<Rightarrow> fetchForecasts w scanDate c1 (fm(code \<mapsto> f)) codes
      | (Inr None, c1) \<Rightarrow> fetchForecasts w scanDate c1 fm codes
      | (Inl e, c1) \<Rightarrow> fetchForecasts w scanDate c1 fm codes)"

text \<open>
  The detection loop of \<open>scan\<close>: a market without a forecast is skipped; the others have
  their prices refreshed in place and their opportunities appended.
\<close>

fun analyzeMarkets ::
  "world \<Rightarrow> (string \<rightharpoonup> DailyForecast) \<Rightarrow> WeatherMarket list
     \<Rightarrow> error + WeatherMarket list \<times> WeatherOpportunity list" where
  "analyzeMarkets w fm [] = Inr ([], [])"
| "analyzeMarkets w fm (m # ms) =
     (case fm (cityCode m) of
        None \<Rightarrow>
          (case analyzeMarkets w fm ms of
             Inl e \<Rightarrow> Inl e
           | Inr (ms1, opps) \<Rightarrow> Inr (m # ms1, opps))
      | Some f \<Rightarrow>
          (case updateMarketPrices (getPrice w) m of
             Inl e \<Rightarrow> Inl e
           | Inr m1 \<Rightarrow>
               (case analyzeMarkets w fm ms of
                  Inl e \<Rightarrow> Inl e
                | Inr (ms1, opps) \<Rightarrow>
                    Inr (m1 # ms1,
                         detectOpportunities (MIN_EDGE_THRESHOLD w) (normalCdf w) m1 f @ opps))))"

text \<open>
  \<open>opportunities.sort((a, b) => b.edge - a.edge)\<close>: a stable sort, here by insertion; an
  element moves in front of those the comparison puts after it.
\<close>

fun insertByEdge :: "WeatherOpportunity \<Rightarrow> WeatherOpportunity list \<Rightarrow> WeatherOpportunity list" where
  "insertByEdge x [] = [x]"
| "insertByEdge x (y # ys) =
     (if num_lt (Num 0) (num_sub (edge x) (edge y)) then x # y # ys
      else y # insertByEdge x ys)"

definition sortByEdge :: "WeatherOpportunity list \<Rightarrow> WeatherOpportunity list" where
  "sortByEdge xs = foldl (\<lambda>acc x. insertByEdge x acc) [] xs"

text \<open>
  \<open>scan(targetDate?)\<close>: \<open>None\<close> for the argument left out. The first log line prints the
  scan date before the \<open>try\<close> block is entered.
\<close>

definition scan :: "world \<Rightarrow> NWSClient \<Rightarrow> Date option \<Rightarrow> (error + WeatherScanResult) \<times> NWSClient" where
  "scan w c target =
     (let scanDate = (case target of Some d \<Rightarrow> d | None \<Rightarrow> getTomorrowDate (jsHost w) (clock w))
      in case isoDate scanDate of
           Inl e \<Rightarrow> (Inl e, c)
         | Inr scanDay \<Rightarrow>
             (case toISOString (Some (clock w)) of
                Inl e \<Rightarrow> (Inl e, c)
              | Inr stamp \<Rightarrow>
                  (case findTemperatureMarkets (jsHost w) (clock w) (parseTempBucket w) (gammaApi w) of
                     Inl e \<Rightarrow> (Inl e, c)
                   | Inr found \<Rightarrow>
                       if found = [] then
                         (Inr \<lparr>markets = [], forecasts = Map.empty, opportunities = [],
                               scannedAt = stamp\<rparr>, c)
                       else
                         (case fetchForecasts w scanDate c Map.empty
                                 (distinctInOrder (map cityCode found)) of
                            (fm, c1) \<Rightarrow>
                              (case analyzeMarkets w fm found of
                                 Inl e \<Rightarrow> (Inl e, c1)
                               | Inr (ms, opps) \<Rightarrow>
                                   (Inr \<lparr>markets = ms, forecasts = fm,
                                         opportunities = sortByEdge opps, scannedAt = stamp\<rparr>,
                                    c1))))))"

section \<open>The specification's wording, for comparison with the code\<close>

text \<open>
  The confidence tier as the specification tabulates it, a function of the lead time in
  hours: at most 24 gives \<open>very_high\<close>, at most 48 \<open>high\<close>, at most 72 \<open>medium\<close>, anything
  greater \<open>low\<close>.
\<close>

definition specConfidenceTier :: "real \<Rightarrow> confidence" where
  "specConfidenceTier leadHours =
     (if leadHours \<le> 24 then very_high
      else if leadHours \<le> 48 then high
      else if leadHours \<le> 72 then medium
      else low)"

text \<open>
  The calendar date of a period as the specification words it, the local one. The
  provider's start times are local times followed by their offset from UTC, so the local
  date is the date part of the text.
\<close>

definition specLocalDate :: "HourlyForecast \<Rightarrow> string" where
  "specLocalDate f = splitT0 (startTime f)"

text \<open>
  The keyword test as the specification words it: on the combined text of question,
  description and slug, in lower case.
\<close>

definition specCombinedText :: "RawMarket \<Rightarrow> string" where
  "specCombinedText market =
     toLowerCase (str_of (str_or (m_question market) (m_title market)) @ '' '' @
                  str_of (m_description market) @ '' '' @ str_of (m_slug market))"

definition specIsTemp :: "RawMarket \<Rightarrow> bool" where
  "specIsTemp market =
     list_ex (\<lambda>kw. includesStr (specCombinedText market) (toLowerCase kw)) TEMP_KEYWORDS"

text \<open>
  Discovery as the specification describes its failure: the primary query has failed
  (nothing usable came back from the tag query), and so has the broader keyword query.
\<close>

definition primaryQueryFailed ::
  "host \<Rightarrow> int \<Rightarrow> (string \<Rightarrow> TempBucket option) \<Rightarrow> gamma \<Rightarrow> bool" where
  "primaryQueryFailed h now pt g =
     (case tagSearch g of
        Threw e \<Rightarrow> True
      | NotOk st txt \<Rightarrow> True
      | Ok data \<Rightarrow> (case parseAll h now pt [] data of Inl e \<Rightarrow> True | Inr found \<Rightarrow> False))"

definition fallbackQueryFailed ::
  "host \<Rightarrow> int \<Rightarrow> (string \<Rightarrow> TempBucket option) \<Rightarrow> gamma \<Rightarrow> bool" where
  "fallbackQueryFailed h now pt g =
     (case searchKeywords h now pt g [] [''temperature'', ''high'', ''weather''] of
        Inl e \<Rightarrow> True
      | Inr found \<Rightarrow> False)"

section \<open>Example inputs\<close>

text \<open>
  A host in US Eastern standard time that reads the start times of the example periods
  (the last of them, 8 p.m. in New York, is 1 a.m. of the next day in UTC), and reads a
  month and a day without a year as V8, the engine of Node.js, does: as local midnight of
  that day in 2001.
\<close>

definition exampleHost :: host where
  "exampleHost =
     \<lparr>newDate = map_of
        [(''2025-12-25T09:00:00-05:00'', 1766671200000),
         (''2025-12-25T14:00:00-05:00'', 1766689200000),
         (''2025-12-26T09:00:00-05:00'', 1766757600000),
         (''2025-12-25T20:00:00-05:00'', 1766710800000),
         (''dec 25'', 1009256400000)],
      tzOffset = - 18000000\<rparr>"

definition exampleGrid :: GridPoint where
  "exampleGrid =
     \<lparr>office = ''OKX'', gridX = 33, gridY = 35,
      forecastUrl = ''https://api.weather.gov/gridpoints/OKX/33,35/forecast'',
      forecastHourlyUrl = ''https://api.weather.gov/gridpoints/OKX/33,35/forecast/hourly''\<rparr>"

definition examplePeriods :: "HourlyForecast list" where
  "examplePeriods =
     [\<lparr>startTime = ''2025-12-25T09:00:00-05:00'', endTime = ''2025-12-25T10:00:00-05:00'',
       temperature = 70, temperatureUnit = ''F'', isDaytime = True, shortForecast = ''Sunny''\<rparr>,
      \<lparr>startTime = ''2025-12-25T14:00:00-05:00'', endTime = ''2025-12-25T15:00:00-05:00'',
       temperature = 76, temperatureUnit = ''F'', isDaytime = True,
       shortForecast = ''Mostly Sunny''\<rparr>,
      \<lparr>startTime = ''2025-12-26T09:00:00-05:00'', endTime = ''2025-12-26T10:00:00-05:00'',
       temperature = 80, temperatureUnit = ''F'', isDaytime = True, shortForecast = ''Cloudy''\<rparr>]"

definition exampleProvider :: provider where
  "exampleProvider = \<lparr>points = (\<lambda>la lo. Ok exampleGrid), hourly = (\<lambda>url. Ok examplePeriods)\<rparr>"

text \<open>
  A provider that answers 404 to a grid point request without coordinates, as the real
  one does to the path \<open>/points/undefined,undefined\<close>.
\<close>

definition strictProvider :: provider where
  "strictProvider =
     \<lparr>points = (\<lambda>la lo. if la = None \<or> lo = None then NotOk 404 ''Not Found''
                          else Ok exampleGrid),
      hourly = (\<lambda>url. Ok examplePeriods)\<rparr>"

text \<open>
  A single period in the evening of 25 December, New York time, and a provider that
  answers with it.
\<close>

definition eveningPeriod :: HourlyForecast where
  "eveningPeriod =
     \<lparr>startTime = ''2025-12-25T20:00:00-05:00'', endTime = ''2025-12-25T21:00:00-05:00'',
      temperature = 90, temperatureUnit = ''F'', isDaytime = False, shortForecast = ''Clear''\<rparr>"

definition eveningProvider :: provider where
  "eveningProvider = \<lparr>points = (\<lambda>la lo. Ok exampleGrid), hourly = (\<lambda>url. Ok [eveningPeriod])\<rparr>"

text \<open>The client as its constructor leaves it.\<close>

definition newClient :: NWSClient where
  "newClient = \<lparr>gridPointCache = Map.empty, sent = []\<rparr>"

text \<open>The client after it has fetched the example periods for New York.\<close>

definition fetchedClient :: NWSClient where
  "fetchedClient =
     \<lparr>gridPointCache = [(Some 40.7128, Some (- 74.0060)) \<mapsto> exampleGrid],
      sent = [PointsRequest (Some 40.7128) (Some (- 74.0060)),
              UrlRequest ''https://api.weather.gov/gridpoints/OKX/33,35/forecast/hourly'']\<rparr>"

text \<open>The summary of the example periods of 25 December, a day ahead or a little more.\<close>

definition exampleDaily :: "confidence \<Rightarrow> DailyForecast" where
  "exampleDaily tier =
     \<lparr>date = ''2025-12-25'', highTemp = 76, lowTemp = 70, confidence = tier, hoursUntil = 24,
      dailyShortForecast = ''Sunny''\<rparr>"

text \<open>A stand-in for the normal distribution function in the examples: the step at 0.\<close>

definition stepCdf :: "real \<Rightarrow> real" where
  "stepCdf x = (if x < 0 then 0 else 1)"

definition exampleForecast :: DailyForecast where
  "exampleForecast =
     \<lparr>date = ''2025-12-25'', highTemp = 75, lowTemp = 60, confidence = high, hoursUntil = 30,
      dailyShortForecast = ''Sunny''\<rparr>"

definition outcomeA :: MarketOutcome where
  "outcomeA = \<lparr>tokenId = Some ''tokenA'',
               bucket = \<lparr>lowerBound = Some 73, upperBound = Some 77\<rparr>, price = Num 0.95\<rparr>"

definition outcomeB :: MarketOutcome where
  "outcomeB = \<lparr>tokenId = Some ''tokenB'',
               bucket = \<lparr>lowerBound = Some 77, upperBound = None\<rparr>, price = Num 0.5\<rparr>"

definition exampleMarket :: WeatherMarket where
  "exampleMarket =
     \<lparr>marketId = Some ''market1'', conditionId = Some ''condition1'', city = ''New York City'',
      cityCode = ''NYC'', targetDate = ''2025-12-25'', outcomes = [outcomeA, outcomeB],
      question = Some ''NYC High Temp Dec 25''\<rparr>"

text \<open>A stand-in for the label parser in the examples: it knows two labels.\<close>

definition exampleParser :: "string \<Rightarrow> TempBucket option" where
  "exampleParser =
     map_of [(''73-77'', \<lparr>lowerBound = Some 73, upperBound = Some 77\<rparr>),
             (''77 or above'', \<lparr>lowerBound = Some 77, upperBound = None\<rparr>)]"

definition rawOutcomeA :: RawOutcome where
  "rawOutcomeA =
     \<lparr>r_outcome = Some ''73-77'', r_name = None, r_title = None, r_tokenId = None,
      r_token_id = Some ''tokenA'', r_id = None, r_price = Undefined,
      r_lastTradePrice = Undefined\<rparr>"

definition rawOutcomeB :: RawOutcome where
  "rawOutcomeB =
     \<lparr>r_outcome = Some ''77 or above'', r_name = None, r_title = None, r_tokenId = None,
      r_token_id = Some ''tokenB'', r_id = None, r_price = JString ''0.31'',
      r_lastTradePrice = Undefined\<rparr>"

text \<open>A record whose question names the city and the day, and no end date.\<close>

definition rawMarketDec25 :: RawMarket where
  "rawMarketDec25 =
     \<lparr>m_question = Some ''NYC High Temp Dec 25'', m_title = None, m_description = None,
      m_slug = None, m_endDate = None, m_outcomes = Some [rawOutcomeA, rawOutcomeB],
      m_tokens = None, m_id = Some ''market1'', m_conditionId = Some ''condition1''\<rparr>"

text \<open>The same record with an end date.\<close>

definition datedMarketDec25 :: RawMarket where
  "datedMarketDec25 = rawMarketDec25\<lparr>m_endDate := Some ''2025-12-25T12:00:00Z''\<rparr>"

text \<open>
  A record that mentions the temperature in its description and in its slug, and not in
  its question.
\<close>

definition rawMarketDescribed :: RawMarket where
  "rawMarketDescribed =
     \<lparr>m_question = Some ''How warm will NYC get on 2025-12-25?'', m_title = None,
      m_description = Some ''Resolves to the daily high in Central Park, in degrees.'',
      m_slug = Some ''nyc-high-temperature-2025-12-25'', m_endDate = None,
      m_outcomes = Some [rawOutcomeA, rawOutcomeB], m_tokens = None,
      m_id = Some ''market2'', m_conditionId = Some ''condition2''\<rparr>"

text \<open>A record without a question, whose title is about something else.\<close>

definition rawMarketElection :: RawMarket where
  "rawMarketElection =
     \<lparr>m_question = None, m_title = Some ''Who wins the NYC election?'',
      m_description = Some ''Not about the temperature.'', m_slug = Some ''nyc-election'',
      m_endDate = None, m_outcomes = None, m_tokens = None, m_id = Some ''market3'',
      m_conditionId = None\<rparr>"

text \<open>A market-listing provider that is unreachable: every call to it throws.\<close>

definition unreachableGamma :: gamma where
  "unreachableGamma =
     \<lparr>tagSearch = Threw (TypeError ''fetch failed''),
      keywordSearch = (\<lambda>keyword. Threw (TypeError ''fetch failed''))\<rparr>"

text \<open>A price call that fails for one token and answers 0.6 for every other.\<close>

definition examplePrices :: "string option \<Rightarrow> error + number" where
  "examplePrices token =
     (if token = Some ''tokenA'' then Inl (Error ''timeout'') else Inr (Num 0.6))"

text \<open>A price call that answers 0 for every token.\<close>

definition zeroPrices :: "string option \<Rightarrow> error + number" where
  "zeroPrices token = Inr (Num 0)"

text \<open>The world of the examples at 2025-12-24T00:00:00Z, with the exchange unreachable.\<close>

definition offlineWorld :: world where
  "offlineWorld =
     \<lparr>jsHost = exampleHost, clock = 1766534400000, forecastProvider = exampleProvider,
      gammaApi = unreachableGamma, getPrice = examplePrices, parseTempBucket = exampleParser,
      MIN_EDGE_THRESHOLD = 0.05, normalCdf = stepCdf\<rparr>"

section \<open>Properties\<close>

subsection \<open>Evaluating the model on concrete inputs\<close>

lemmas date_defs = isoDate_def toISOString_def civilFromDays_def civilOfEra_def civilOfYearOfEra_def
  civilOfDayOfYear_def civilOfMonth_def msPerDay_def isoYear_def isoDay_def isoTime_def
  pad2_def pad3_def pad4_def pad6_def digitChar_def splitT0_def

lemma toLowerChar_simps:
  "toLowerChar CHR ''a'' = CHR ''a''"
  "toLowerChar CHR ''b'' = CHR ''b''"
  "toLowerChar CHR ''c'' = CHR ''c''"
  "toLowerChar CHR ''d'' = CHR ''d''"
  "toLowerChar CHR ''e'' = CHR ''e''"
  "toLowerChar CHR ''f'' = CHR ''f''"
  "toLowerChar CHR ''g'' = CHR ''g''"
  "toLowerChar CHR ''h'' = CHR ''h''"
  "toLowerChar CHR ''i'' = CHR ''i''"
  "toLowerChar CHR ''j'' = CHR ''j''"
  "toLowerChar CHR ''k'' = CHR ''k''"
  "toLowerChar CHR ''l'' = CHR ''l''"
  "toLowerChar CHR ''m'' = CHR ''m''"
  "toLowerChar CHR ''n'' = CHR ''n''"
  "toLowerChar CHR ''o'' = CHR ''o''"
  "toLowerChar CHR ''p'' = CHR ''p''"
  "toLowerChar CHR ''q'' = CHR ''q''"
  "toLowerChar CHR ''r'' = CHR ''r''"
  "toLowerChar CHR ''s'' = CHR ''s''"
  "toLowerChar CHR ''t'' = CHR ''t''"
  "toLowerChar CHR ''u'' = CHR ''u''"
  "toLowerChar CHR ''v'' = CHR ''v''"
  "toLowerChar CHR ''w'' = CHR ''w''"
  "toLowerChar CHR ''x'' = CHR ''x''"
  "toLowerChar CHR ''y'' = CHR ''y''"
  "toLowerChar CHR ''z'' = CHR ''z''"
  "toLowerChar CHR ''0'' = CHR ''0''"
  "toLowerChar CHR ''1'' = CHR ''1''"
  "toLowerChar CHR ''2'' = CHR ''2''"
  "toLowerChar CHR ''3'' = CHR ''3''"
  "toLowerChar CHR ''4'' = CHR ''4''"
  "toLowerChar CHR ''5'' = CHR ''5''"
  "toLowerChar CHR ''6'' = CHR ''6''"
  "toLowerChar CHR ''7'' = CHR ''7''"
  "toLowerChar CHR ''8'' = CHR ''8''"
  "toLowerChar CHR ''9'' = CHR ''9''"
  "toLowerChar CHR ''A'' = CHR ''a''"
  "toLowerChar CHR ''B'' = CHR ''b''"
  "toLowerChar CHR ''C'' = CHR ''c''"
  "toLowerChar CHR ''D'' = CHR ''d''"
  "toLowerChar CHR ''E'' = CHR ''e''"
  "toLowerChar CHR ''F'' = CHR ''f''"
  "toLowerChar CHR ''G'' = CHR ''g''"
  "toLowerChar CHR ''H'' = CHR ''h''"
  "toLowerChar CHR ''I'' = CHR ''i''"
  "toLowerChar CHR ''J'' = CHR ''j''"
  "toLowerChar CHR ''K'' = CHR ''k''"
  "toLowerChar CHR ''L'' = CHR ''l''"
  "toLowerChar CHR ''M'' = CHR ''m''"
  "toLowerChar CHR ''N'' = CHR ''n''"
  "toLowerChar CHR ''O'' = CHR ''o''"
  "toLowerChar CHR ''P'' = CHR ''p''"
  "toLowerChar CHR ''Q'' = CHR ''q''"
  "toLowerChar CHR ''R'' = CHR ''r''"
  "toLowerChar CHR ''S'' = CHR ''s''"
  "toLowerChar CHR ''T'' = CHR ''t''"
  "toLowerChar CHR ''U'' = CHR ''u''"
  "toLowerChar CHR ''V'' = CHR ''v''"
  "toLowerChar CHR ''W'' = CHR ''w''"
  "toLowerChar CHR ''X'' = CHR ''x''"
  "toLowerChar CHR ''Y'' = CHR ''y''"
  "toLowerChar CHR ''Z'' = CHR ''z''"
  "toLowerChar CHR '' '' = CHR '' ''"
  "toLowerChar CHR ''?'' = CHR ''?''"
  "toLowerChar CHR ''-'' = CHR ''-''"
  "toLowerChar CHR ''.'' = CHR ''.''"
  "toLowerChar CHR ''/'' = CHR ''/''"
  "toLowerChar CHR '','' = CHR '',''"
  "toLowerChar (CHR 0xB0) = CHR 0xB0"
  by (simp_all add: toLowerChar_def upperCaseLetters_def lowerCaseLetters_def)

lemmas regex_defs = isDigit_def isSpace_def oneOf_def monthNames_def monthAbbreviations_def
  sameLetter_def startsWith_def toLowerChar_simps

lemma parseFloat_default: "parseFloat (JString ''0.5'') = Num 0.5"
  by (simp add: parseFloatString_def startsWith_def isDigit_def isSpace_def digitsValue_def
        digitValue_def scale10_def exponentPart_def)

subsection \<open>The forecast client\<close>

text \<open>
  C3. The standard deviation of each confidence tier is 1.5 for \<open>very_high\<close>, 2.0 for
  \<open>high\<close>, 3.0 for \<open>medium\<close> and 4.5 for \<open>low\<close>, and it grows strictly as the confidence
  decreases.
\<close>

theorem getStdDev_table:
  "getStdDev very_high = 1.5 \<and> getStdDev high = 2.0 \<and> getStdDev medium = 3.0 \<and>
   getStdDev low = 4.5 \<and>
   getStdDev very_high < getStdDev high \<and> getStdDev high < getStdDev medium \<and>
   getStdDev medium < getStdDev low"
  by simp

lemma isoDate_Inr_valid: "isoDate d = Inr s \<Longrightarrow> \<exists>t. d = Some t"
  by (cases d) (simp_all add: isoDate_def toISOString_def)

lemma isoDate_Some: "\<exists>s. isoDate (Some t) = Inr s"
  by (simp add: isoDate_def toISOString_def)

lemma filterTargetDate_valid:
  assumes "\<forall>f \<in> set ps. newDate h (startTime f) \<noteq> None"
  shows "filterTargetDate h day ps =
           Inr (filter (\<lambda>f. isoDate (newDate h (startTime f)) = Inr day) ps)"
  using assms
proof (induction ps)
  case Nil
  then show ?case by simp
next
  case (Cons f fs)
  then obtain t where t: "newDate h (startTime f) = Some t" by auto
  obtain s where s: "isoDate (Some t) = Inr s" using isoDate_Some by blast
  from Cons t s show ?case by simp
qed

lemma Math_max_Max: "Math_max x xs = Max (set (x # xs))"
  unfolding Math_max_def by (rule Max.set_eq_fold [symmetric])

lemma Math_min_Min: "Math_min x xs = Min (set (x # xs))"
  unfolding Math_min_def by (rule Min.set_eq_fold [symmetric])

lemma summarizeDay_none:
  assumes "isoDate target = Inr d" and "filterTargetDate h d ps = Inr []"
  shows "summarizeDay h now target ps = Inr None"
  using assms by (simp add: summarizeDay_def)

lemma summarizeDay_some:
  assumes "isoDate target = Inr d" and "filterTargetDate h d ps = Inr (f0 # fs)"
  shows "\<exists>f. summarizeDay h now target ps = Inr (Some f) \<and>
             highTemp f = Max (temperature ` set (f0 # fs)) \<and>
             lowTemp f = Min (temperature ` set (f0 # fs))"
  using assms
  by (simp add: summarizeDay_def Let_def Math_max_Max Math_min_Min del: filter.simps Max_insert Min_insert
        split del: if_split)

lemma getDailyHigh_known:
  assumes "map_of CITIES code = Some ct"
      and "getHourlyForecast p c (Some (lat ct)) (Some (lon ct)) = (Inr ps, c1)"
  shows "getDailyHigh h p c now code target = (summarizeDay h now target ps, c1)"
  using assms by (simp add: getDailyHigh_def lookupCITIES_def)

lemma summarizeDay_forecast:
  assumes "summarizeDay h now target ps = Inr (Some f)"
  shows "\<exists>t. target = Some t \<and>
           confidence f = specConfidenceTier (max 0 (real_of_int (t - now) / 3600000))"
proof -
  from assms obtain d where d: "isoDate target = Inr d"
    by (cases "isoDate target") (simp_all add: summarizeDay_def)
  then obtain t where t: "target = Some t"
    using isoDate_Inr_valid by blast
  from assms d obtain day where day: "filterTargetDate h d ps = Inr day"
    by (cases "filterTargetDate h d ps") (simp_all add: summarizeDay_def)
  from assms d day obtain f0 fs where ne: "day = f0 # fs"
    by (cases day) (simp_all add: summarizeDay_def)
  from assms d day ne t
  have "confidence f = specConfidenceTier (max 0 (real_of_int (t - now) / 3600000))"
    by (auto simp add: summarizeDay_def specConfidenceTier_def Let_def simp del: filter.simps)
  with t show ?thesis by simp
qed

lemma getDailyHigh_result:
  assumes "getDailyHigh h p c now code target = (Inr r, c1)"
  shows "\<exists>la lo ps. lookupCITIES code \<noteq> Missing \<and>
           getHourlyForecast p c la lo = (Inr ps, c1) \<and> summarizeDay h now target ps = Inr r"
proof -
  let ?la = "case lookupCITIES code of Own ct \<Rightarrow> Some (lat ct) | _ \<Rightarrow> None"
  let ?lo = "case lookupCITIES code of Own ct \<Rightarrow> Some (lon ct) | _ \<Rightarrow> None"
  have nm: "lookupCITIES code \<noteq> Missing"
    using assms by (auto simp: getDailyHigh_def)
  then have unf: "getDailyHigh h p c now code target =
      (case getHourlyForecast p c ?la ?lo of
         (Inl e, c1) \<Rightarrow> (Inl e, c1)
       | (Inr ps, c1) \<Rightarrow> (summarizeDay h now target ps, c1))"
    by (cases "lookupCITIES code") (simp_all add: getDailyHigh_def)
  obtain x c2 where g: "getHourlyForecast p c ?la ?lo = (x, c2)"
    by (cases "getHourlyForecast p c ?la ?lo")
  with assms unf obtain ps where "x = Inr ps" "c2 = c1" "summarizeDay h now target ps = Inr r"
    by (cases x) auto
  with nm g show ?thesis by blast
qed

lemma example_fetch:
  "getHourlyForecast exampleProvider newClient (Some 40.7128) (Some (- 74.0060)) =
     (Inr examplePeriods, fetchedClient)"
  by (simp add: getHourlyForecast_def getGridPoint_def exampleProvider_def newClient_def
        fetchedClient_def exampleGrid_def)

lemma example_city:
  "map_of CITIES ''NYC'' =
     Some \<lparr>name = ''New York City'', lat = 40.7128, lon = - 74.0060, station = ''KNYC''\<rparr>"
  by (simp add: CITIES_def)

lemma example_dates:
  "isoDate (Some 1766620800000) = Inr ''2025-12-25''"
  "isoDate (Some 1766793600000) = Inr ''2025-12-27''"
  "isoDate (newDate exampleHost ''2025-12-25T09:00:00-05:00'') = Inr ''2025-12-25''"
  "isoDate (newDate exampleHost ''2025-12-25T14:00:00-05:00'') = Inr ''2025-12-25''"
  "isoDate (newDate exampleHost ''2025-12-26T09:00:00-05:00'') = Inr ''2025-12-26''"
  by (simp_all add: exampleHost_def date_defs)

lemma example_filter:
  "filterTargetDate exampleHost ''2025-12-25'' examplePeriods = Inr (take 2 examplePeriods)"
  "filterTargetDate exampleHost ''2025-12-27'' examplePeriods = Inr []"
  by (simp_all add: examplePeriods_def example_dates)

lemma example_summary:
  "summarizeDay exampleHost 1766534400000 (Some 1766620800000) examplePeriods =
     Inr (Some (exampleDaily very_high))"
  "summarizeDay exampleHost 1766534340000 (Some 1766620800000) examplePeriods =
     Inr (Some (exampleDaily high))"
  by (simp_all add: summarizeDay_def example_dates example_filter)
     (simp_all add: examplePeriods_def exampleDaily_def Math_max_def Math_min_def Math_round_def)

lemma example_getDailyHigh:
  "getDailyHigh exampleHost exampleProvider newClient 1766534400000 ''NYC'' (Some 1766620800000) =
     (Inr (Some (exampleDaily very_high)), fetchedClient)"
  "getDailyHigh exampleHost exampleProvider newClient 1766534340000 ''NYC'' (Some 1766620800000) =
     (Inr (Some (exampleDaily high)), fetchedClient)"
  using getDailyHigh_known [OF example_city, of exampleProvider newClient examplePeriods fetchedClient]
    example_fetch
  by (simp_all add: example_summary)

text \<open>
  C2. Whenever \<open>getDailyHigh\<close> returns a forecast, the target is a valid date and the
  confidence tier is the specification's function of the lead time
  \<open>max(0, targetDate - now)\<close> in hours, and of nothing else. A lead time of exactly 24
  hours gives \<open>very_high\<close>, one of 24 hours and a minute gives \<open>high\<close>.
\<close>

theorem getDailyHigh_confidence:
  assumes "getDailyHigh h p c now code target = (Inr (Some f), c1)"
  shows "\<exists>t. target = Some t \<and>
           confidence f = specConfidenceTier (max 0 (real_of_int (t - now) / 3600000)) \<and>
           (t - now = 24 * 3600000 \<longrightarrow> confidence f = very_high) \<and>
           (t - now = 24 * 3600000 + 60000 \<longrightarrow> confidence f = high)"
proof -
  from getDailyHigh_result [OF assms] obtain ps where "summarizeDay h now target ps = Inr (Some f)"
    by blast
  from summarizeDay_forecast [OF this] obtain t where
    t: "target = Some t" and
    cf: "confidence f = specConfidenceTier (max 0 (real_of_int (t - now) / 3600000))"
    by blast
  have a: "t - now = 24 * 3600000 \<longrightarrow> confidence f = very_high"
    by (simp add: cf specConfidenceTier_def)
  have b: "t - now = 24 * 3600000 + 60000 \<longrightarrow> confidence f = high"
    by (simp add: cf specConfidenceTier_def)
  from t cf a b show ?thesis by blast
qed

theorem getDailyHigh_confidence_witness:
  "getDailyHigh exampleHost exampleProvider newClient 1766534400000 ''NYC'' (Some 1766620800000) =
     (Inr (Some (exampleDaily very_high)), fetchedClient) \<and>
   1766620800000 - 1766534400000 = (24 * 3600000 :: int) \<and>
   confidence (exampleDaily very_high) = specConfidenceTier 24 \<and>
   confidence (exampleDaily very_high) = very_high \<and>
   getDailyHigh exampleHost exampleProvider newClient 1766534340000 ''NYC'' (Some 1766620800000) =
     (Inr (Some (exampleDaily high)), fetchedClient) \<and>
   1766620800000 - 1766534340000 = (24 * 3600000 + 60000 :: int) \<and>
   confidence (exampleDaily high) = high"
proof -
  have a: "confidence (exampleDaily very_high) = specConfidenceTier 24 \<and>
           confidence (exampleDaily very_high) = very_high"
    using getDailyHigh_confidence [OF example_getDailyHigh(1)] by (simp add: exampleDaily_def)
  have b: "confidence (exampleDaily high) = high"
    using getDailyHigh_confidence [OF example_getDailyHigh(2)] by (simp add: exampleDaily_def)
  have c: "1766620800000 - 1766534400000 = (24 * 3600000 :: int)"
    and d: "1766620800000 - 1766534340000 = (24 * 3600000 + 60000 :: int)"
    by simp_all
  from a b c d example_getDailyHigh show ?thesis by blast
qed

lemma evening_fetch:
  "getHourlyForecast eveningProvider newClient (Some 40.7128) (Some (- 74.0060)) =
     (Inr [eveningPeriod], fetchedClient)"
  by (simp add: getHourlyForecast_def getGridPoint_def eveningProvider_def newClient_def
        fetchedClient_def exampleGrid_def)

lemma evening_dates:
  "isoDate (Some 1766707200000) = Inr ''2025-12-26''"
  "isoDate (newDate exampleHost (startTime eveningPeriod)) = Inr ''2025-12-26''"
  by (simp_all add: eveningPeriod_def exampleHost_def date_defs)

lemma evening_summary:
  "summarizeDay exampleHost 1766534400000 (Some 1766620800000) [eveningPeriod] = Inr None"
  "summarizeDay exampleHost 1766534400000 (Some 1766707200000) [eveningPeriod] =
     Inr (Some \<lparr>date = ''2025-12-26'', highTemp = 90, lowTemp = 90, confidence = high,
                hoursUntil = 48, dailyShortForecast = ''Clear''\<rparr>)"
  by (simp_all add: summarizeDay_def example_dates evening_dates)
     (simp_all add: eveningPeriod_def Math_max_def Math_min_def Math_round_def)

text \<open>
  C6, as stated, fails where the calendar date of a period is the local one, as the
  specification has it. The period at 8 p.m. of 25 December in New York is the only one
  fetched. For the target 2025-12-25, the period's local date, \<open>getDailyHigh\<close> returns
  \<open>null\<close>; for the target 2025-12-26, on which no period falls locally, it returns a
  forecast with that period's temperature.
\<close>

theorem local_date_counterexample:
  "specLocalDate eveningPeriod = ''2025-12-25'' \<and>
   isoDate (Some 1766620800000) = Inr ''2025-12-25'' \<and>
   getDailyHigh exampleHost eveningProvider newClient 1766534400000 ''NYC''
     (Some 1766620800000) = (Inr None, fetchedClient) \<and>
   isoDate (Some 1766707200000) = Inr ''2025-12-26'' \<and>
   getDailyHigh exampleHost eveningProvider newClient 1766534400000 ''NYC''
     (Some 1766707200000) =
     (Inr (Some \<lparr>date = ''2025-12-26'', highTemp = 90, lowTemp = 90, confidence = high,
                  hoursUntil = 48, dailyShortForecast = ''Clear''\<rparr>), fetchedClient)"
proof -
  have l: "specLocalDate eveningPeriod = ''2025-12-25''"
    by (simp add: specLocalDate_def eveningPeriod_def splitT0_def)
  have g: "getDailyHigh exampleHost eveningProvider newClient 1766534400000 ''NYC''
     (Some 1766620800000) = (Inr None, fetchedClient)"
     "getDailyHigh exampleHost eveningProvider newClient 1766534400000 ''NYC''
     (Some 1766707200000) =
     (Inr (Some \<lparr>date = ''2025-12-26'', highTemp = 90, lowTemp = 90, confidence = high,
                  hoursUntil = 48, dailyShortForecast = ''Clear''\<rparr>), fetchedClient)"
    using getDailyHigh_known [OF example_city, of eveningProvider newClient "[eveningPeriod]"
        fetchedClient] evening_fetch
    by (simp_all add: evening_summary)
  from l g example_dates(1) evening_dates(1) show ?thesis by blast
qed

text \<open>
  C6, as amended. The calendar date of a period, and of the target, is its date in UTC,
  the date part of \<open>toISOString\<close>. For a tracked city whose hourly periods have been
  fetched, each with a start time that is a valid date: when every period falls on a UTC
  date other than the target's, \<open>getDailyHigh\<close> returns \<open>null\<close> and not an error; when some
  period falls on the target's UTC date, it returns a forecast whose \<open>highTemp\<close> is the
  maximum and whose \<open>lowTemp\<close> is the minimum of the temperatures of the periods of that
  UTC date.
\<close>

theorem getDailyHigh_absent_or_extremes:
  assumes known: "map_of CITIES code = Some ct"
      and fetched: "getHourlyForecast p c (Some (lat ct)) (Some (lon ct)) = (Inr ps, c1)"
      and valid: "\<forall>f \<in> set ps. newDate h (startTime f) \<noteq> None"
  shows "((\<forall>f \<in> set ps. isoDate (newDate h (startTime f)) \<noteq> isoDate (Some t)) \<longrightarrow>
            getDailyHigh h p c now code (Some t) = (Inr None, c1)) \<and>
         ((\<exists>f \<in> set ps. isoDate (newDate h (startTime f)) = isoDate (Some t)) \<longrightarrow>
            (\<exists>fc. getDailyHigh h p c now code (Some t) = (Inr (Some fc), c1) \<and>
               highTemp fc = Max (temperature `
                 {f \<in> set ps. isoDate (newDate h (startTime f)) = isoDate (Some t)}) \<and>
               lowTemp fc = Min (temperature `
                 {f \<in> set ps. isoDate (newDate h (startTime f)) = isoDate (Some t)})))"
proof -
  obtain d where d: "isoDate (Some t) = Inr d" using isoDate_Some by blast
  let ?day = "filter (\<lambda>f. isoDate (newDate h (startTime f)) = Inr d) ps"
  have flt: "filterTargetDate h d ps = Inr ?day"
    using valid by (rule filterTargetDate_valid)
  have run: "getDailyHigh h p c now code (Some t) = (summarizeDay h now (Some t) ps, c1)"
    using known fetched by (rule getDailyHigh_known)
  have none: "(\<forall>f \<in> set ps. isoDate (newDate h (startTime f)) \<noteq> isoDate (Some t)) \<longrightarrow>
                getDailyHigh h p c now code (Some t) = (Inr None, c1)"
  proof
    assume "\<forall>f \<in> set ps. isoDate (newDate h (startTime f)) \<noteq> isoDate (Some t)"
    then have "?day = []" by (simp add: d filter_empty_conv)
    with flt have "filterTargetDate h d ps = Inr []" by simp
    with d have "summarizeDay h now (Some t) ps = Inr None" by (rule summarizeDay_none)
    with run show "getDailyHigh h p c now code (Some t) = (Inr None, c1)" by simp
  qed
  have some: "(\<exists>f \<in> set ps. isoDate (newDate h (startTime f)) = isoDate (Some t)) \<longrightarrow>
            (\<exists>fc. getDailyHigh h p c now code (Some t) = (Inr (Some fc), c1) \<and>
               highTemp fc = Max (temperature `
                 {f \<in> set ps. isoDate (newDate h (startTime f)) = isoDate (Some t)}) \<and>
               lowTemp fc = Min (temperature `
                 {f \<in> set ps. isoDate (newDate h (startTime f)) = isoDate (Some t)}))"
  proof
    assume "\<exists>f \<in> set ps. isoDate (newDate h (startTime f)) = isoDate (Some t)"
    then have "?day \<noteq> []" by (simp add: d filter_empty_conv)
    then obtain f0 fs where ne: "?day = f0 # fs" by (cases ?day) auto
    with flt have "filterTargetDate h d ps = Inr (f0 # fs)" by simp
    with d obtain fc where fc: "summarizeDay h now (Some t) ps = Inr (Some fc)"
        "highTemp fc = Max (temperature ` set (f0 # fs))"
        "lowTemp fc = Min (temperature ` set (f0 # fs))"
      using summarizeDay_some by blast
    have eq: "temperature ` set (f0 # fs) =
                temperature ` {f \<in> set ps. isoDate (newDate h (startTime f)) = isoDate (Some t)}"
      unfolding ne [symmetric] by (simp add: d)
    from fc(2) eq have hi: "highTemp fc = Max (temperature `
                 {f \<in> set ps. isoDate (newDate h (startTime f)) = isoDate (Some t)})"
      by (simp only:)
    from fc(3) eq have lo: "lowTemp fc = Min (temperature `
                 {f \<in> set ps. isoDate (newDate h (startTime f)) = isoDate (Some t)})"
      by (simp only:)
    from run fc(1) have "getDailyHigh h p c now code (Some t) = (Inr (Some fc), c1)"
      by simp
    with hi lo show "\<exists>fc. getDailyHigh h p c now code (Some t) = (Inr (Some fc), c1) \<and>
               highTemp fc = Max (temperature `
                 {f \<in> set ps. isoDate (newDate h (startTime f)) = isoDate (Some t)}) \<and>
               lowTemp fc = Min (temperature `
                 {f \<in> set ps. isoDate (newDate h (startTime f)) = isoDate (Some t)})"
      by blast
  qed
  from none some show ?thesis by blast
qed

theorem getDailyHigh_absent_or_extremes_witness:
  "getDailyHigh exampleHost exampleProvider newClient 1766534400000 ''NYC'' (Some 1766793600000) =
     (Inr None, fetchedClient) \<and>
   (\<exists>fc. getDailyHigh exampleHost exampleProvider newClient 1766534400000 ''NYC''
            (Some 1766620800000) = (Inr (Some fc), fetchedClient) \<and>
         highTemp fc = 76 \<and> lowTemp fc = 70)"
proof -
  have fetched: "getHourlyForecast exampleProvider newClient
      (Some (lat \<lparr>name = ''New York City'', lat = 40.7128, lon = - 74.0060, station = ''KNYC''\<rparr>))
      (Some (lon \<lparr>name = ''New York City'', lat = 40.7128, lon = - 74.0060, station = ''KNYC''\<rparr>)) =
      (Inr examplePeriods, fetchedClient)"
    using example_fetch by simp
  have valid: "\<forall>f \<in> set examplePeriods. newDate exampleHost (startTime f) \<noteq> None"
    by (simp add: examplePeriods_def exampleHost_def)
  note inst = getDailyHigh_absent_or_extremes [OF example_city fetched valid]
  have none: "\<forall>f \<in> set examplePeriods.
      isoDate (newDate exampleHost (startTime f)) \<noteq> isoDate (Some 1766793600000)"
    by (simp add: examplePeriods_def example_dates)
  have some: "\<exists>f \<in> set examplePeriods.
      isoDate (newDate exampleHost (startTime f)) = isoDate (Some 1766620800000)"
    by (simp add: examplePeriods_def example_dates)
  have day: "{f \<in> set examplePeriods.
      isoDate (newDate exampleHost (startTime f)) = isoDate (Some 1766620800000)} =
      set (take 2 examplePeriods)"
    by (auto simp add: examplePeriods_def example_dates)
  have a: "getDailyHigh exampleHost exampleProvider newClient 1766534400000 ''NYC''
             (Some 1766793600000) = (Inr None, fetchedClient)"
    using inst [of 1766793600000 1766534400000] none by blast
  obtain fc where fc:
      "getDailyHigh exampleHost exampleProvider newClient 1766534400000 ''NYC''
         (Some 1766620800000) = (Inr (Some fc), fetchedClient)"
      "highTemp fc = Max (temperature ` set (take 2 examplePeriods))"
      "lowTemp fc = Min (temperature ` set (take 2 examplePeriods))"
    using inst [of 1766620800000 1766534400000] some unfolding day by blast
  have "highTemp fc = 76" "lowTemp fc = 70"
    using fc(2,3) by (simp_all add: examplePeriods_def)
  with a fc(1) show ?thesis by blast
qed

text \<open>
  A city code that finds nothing, neither an entry of the table nor an inherited
  property, makes \<open>getDailyHigh\<close> throw \<open>Unknown city\<close> with the client untouched: no
  request has been sent.
\<close>

lemma getDailyHigh_missing:
  assumes "lookupCITIES code = Missing"
  shows "getDailyHigh h p c now code target = (Inl (Error (''Unknown city: '' @ code)), c)"
  using assms by (simp add: getDailyHigh_def)

lemma lookupCITIES_missing:
  assumes "code \<notin> fst ` set CITIES" and "code \<notin> set ObjectPrototypeKeys"
  shows "lookupCITIES code = Missing"
proof -
  from assms(1) have "map_of CITIES code = None"
    by (simp add: map_of_eq_None_iff)
  with assms(2) show ?thesis by (simp add: lookupCITIES_def)
qed

text \<open>
  C9. The claim is that every city code outside the tracked-city table makes
  \<open>getDailyHigh\<close> throw \<open>Unknown city\<close> before any external call. The code does not do so
  for \<open>constructor\<close>, a name every object inherits: the lookup finds the inherited
  property, the guard lets it pass, and the first thing the client does is to request the
  grid point of the coordinates \<open>undefined, undefined\<close>, whatever the provider, the clock and
  the target date are.
\<close>

theorem getDailyHigh_inherited_property:
  "lookupCITIES ''constructor'' = Inherited \<and>
   sent (snd (getDailyHigh h p newClient now ''constructor'' target)) \<noteq> [] \<and>
   hd (sent (snd (getDailyHigh h p newClient now ''constructor'' target))) =
     PointsRequest None None"
proof -
  have l: "lookupCITIES ''constructor'' = Inherited"
    by (simp add: lookupCITIES_def CITIES_def ObjectPrototypeKeys_def)
  have "sent (snd (getDailyHigh h p newClient now ''constructor'' target)) \<noteq> [] \<and>
   hd (sent (snd (getDailyHigh h p newClient now ''constructor'' target))) =
     PointsRequest None None"
    by (cases "points p None None"; cases "hourly p (forecastHourlyUrl (case points p None None of Ok g \<Rightarrow> g))")
       (simp_all add: getDailyHigh_def l getHourlyForecast_def getGridPoint_def newClient_def)
  with l show ?thesis by simp
qed

text \<open>
  At the provider that answers 404 to a request without coordinates, the call ends in the
  provider's error after that request.
\<close>

theorem getDailyHigh_inherited_property_witness:
  "hd (sent (snd (getDailyHigh exampleHost strictProvider newClient 1766534400000 ''constructor''
                    (Some 1766620800000)))) = PointsRequest None None \<and>
   getDailyHigh exampleHost strictProvider newClient 1766534400000 ''constructor''
     (Some 1766620800000) =
     (Inl (Error ''NWS API error: 404 Not Found''),
      \<lparr>gridPointCache = Map.empty, sent = [PointsRequest None None]\<rparr>)"
proof -
  note inst = getDailyHigh_inherited_property
    [of exampleHost strictProvider 1766534400000 "Some 1766620800000"]
  then have l: "lookupCITIES ''constructor'' = Inherited" by blast
  have "getDailyHigh exampleHost strictProvider newClient 1766534400000 ''constructor''
     (Some 1766620800000) =
     (Inl (Error ''NWS API error: 404 Not Found''),
      \<lparr>gridPointCache = Map.empty, sent = [PointsRequest None None]\<rparr>)"
    by (simp add: getDailyHigh_def l getHourlyForecast_def getGridPoint_def strictProvider_def
          newClient_def digitChar_def)
  with inst show ?thesis by blast
qed

subsection \<open>The edge detector\<close>

lemma detectEach_filter:
  "detectEach thr Phi m f outs =
     map (opportunityFor Phi m f)
       (filter (\<lambda>out. num_ge (edge (opportunityFor Phi m f out)) (Num thr)) outs)"
  by (induction outs) simp_all

text \<open>
  C1. For a market and a forecast, \<open>detectOpportunities\<close> reports a bucket of the market
  exactly when its edge, the fair probability minus the market price, is greater than or
  equal to the threshold; a bucket whose edge equals the threshold is reported. The
  opportunities are those of the buckets that pass, in the order of the buckets.
\<close>

theorem detectOpportunities_threshold:
  assumes "out \<in> set (outcomes m)"
  shows "edge (opportunityFor Phi m f out) =
           num_sub (Num (bucketProbability Phi (highTemp f) (getStdDev (confidence f)) (bucket out)))
                   (price out) \<and>
         ((opportunityFor Phi m f out \<in> set (detectOpportunities thr Phi m f)) =
            num_ge (edge (opportunityFor Phi m f out)) (Num thr)) \<and>
         (edge (opportunityFor Phi m f out) = Num thr \<longrightarrow>
            opportunityFor Phi m f out \<in> set (detectOpportunities thr Phi m f)) \<and>
         detectOpportunities thr Phi m f =
           map (opportunityFor Phi m f)
             (filter (\<lambda>x. num_ge (edge (opportunityFor Phi m f x)) (Num thr)) (outcomes m))"
proof -
  let ?opp = "opportunityFor Phi m f"
  let ?keep = "\<lambda>x. num_ge (edge (?opp x)) (Num thr)"
  have all: "detectOpportunities thr Phi m f = map ?opp (filter ?keep (outcomes m))"
    by (simp add: detectOpportunities_def detectEach_filter)
  have e: "edge (?opp out) =
             num_sub (Num (bucketProbability Phi (highTemp f) (getStdDev (confidence f)) (bucket out)))
                     (price out)"
    by (simp add: opportunityFor_def Let_def)
  have iff: "(?opp out \<in> set (detectOpportunities thr Phi m f)) = ?keep out"
  proof
    assume "?opp out \<in> set (detectOpportunities thr Phi m f)"
    then obtain x where "x \<in> set (outcomes m)" "?keep x" "?opp x = ?opp out"
      unfolding all by auto
    then show "?keep out" by simp
  next
    assume "?keep out"
    with assms show "?opp out \<in> set (detectOpportunities thr Phi m f)"
      unfolding all by auto
  qed
  have bnd: "edge (?opp out) = Num thr \<longrightarrow> ?opp out \<in> set (detectOpportunities thr Phi m f)"
    using iff by simp
  from e iff bnd all show ?thesis by blast
qed

lemma example_edges:
  "edge (opportunityFor stepCdf exampleMarket exampleForecast outcomeA) = Num 0.05"
  "edge (opportunityFor stepCdf exampleMarket exampleForecast outcomeB) = Num (- 0.5)"
  by (simp_all add: opportunityFor_def bucketProbability_def stepCdf_def exampleForecast_def
        outcomeA_def outcomeB_def)

theorem detectOpportunities_threshold_witness:
  "outcomeA \<in> set (outcomes exampleMarket) \<and>
   edge (opportunityFor stepCdf exampleMarket exampleForecast outcomeA) = Num 0.05 \<and>
   opportunityFor stepCdf exampleMarket exampleForecast outcomeA
     \<in> set (detectOpportunities 0.05 stepCdf exampleMarket exampleForecast) \<and>
   outcomeB \<in> set (outcomes exampleMarket) \<and>
   opportunityFor stepCdf exampleMarket exampleForecast outcomeB
     \<notin> set (detectOpportunities 0.05 stepCdf exampleMarket exampleForecast)"
proof -
  have a: "outcomeA \<in> set (outcomes exampleMarket)" and b: "outcomeB \<in> set (outcomes exampleMarket)"
    by (simp_all add: exampleMarket_def)
  have ina: "opportunityFor stepCdf exampleMarket exampleForecast outcomeA
     \<in> set (detectOpportunities 0.05 stepCdf exampleMarket exampleForecast)"
    unfolding detectOpportunities_threshold
      [OF a, of stepCdf exampleForecast "0.05", THEN conjunct2, THEN conjunct1]
    by (simp add: example_edges)
  have outb: "opportunityFor stepCdf exampleMarket exampleForecast outcomeB
     \<notin> set (detectOpportunities 0.05 stepCdf exampleMarket exampleForecast)"
    unfolding detectOpportunities_threshold
      [OF b, of stepCdf exampleForecast "0.05", THEN conjunct2, THEN conjunct1]
    by (simp add: example_edges)
  from a b ina outb example_edges(1) show ?thesis by blast
qed

subsection \<open>The scanner\<close>

lemma question_lower:
  "toLowerCase ''NYC High Temp Dec 25'' = ''nyc high temp dec 25''"
  by (simp add: toLowerCase_def toLowerChar_simps)

lemma keywords_lower:
  "map toLowerCase TEMP_KEYWORDS =
     [''temperature'', ''high temperature'', ''daily high'', ''degrees'',
      [CHR 0xB0, CHR ''f''], [CHR 0xB0, CHR ''f'']]"
  by (simp add: TEMP_KEYWORDS_def toLowerCase_def toLowerChar_simps)

lemma isTemp_keywords:
  "isTemp market = list_ex (includesStr (questionText market)) (map toLowerCase TEMP_KEYWORDS)"
  by (simp add: isTemp_def list_ex_iff)

lemma specIsTemp_keywords:
  "specIsTemp market = list_ex (includesStr (specCombinedText market)) (map toLowerCase TEMP_KEYWORDS)"
  by (simp add: specIsTemp_def list_ex_iff)

lemma described_texts:
  "questionText rawMarketDescribed = ''how warm will nyc get on 2025-12-25?''"
  "specCombinedText rawMarketDescribed =
     ''how warm will nyc get on 2025-12-25? resolves to the daily high in central park, in degrees. nyc-high-temperature-2025-12-25''"
  by (simp_all add: questionText_def specCombinedText_def rawMarketDescribed_def str_or_def
        str_of_def toLowerCase_def toLowerChar_simps)

lemma described_isTemp: "\<not> isTemp rawMarketDescribed"
  unfolding isTemp_keywords keywords_lower described_texts
  by (simp add: startsWith_def)

lemma described_specIsTemp: "specIsTemp rawMarketDescribed"
  unfolding specIsTemp_keywords keywords_lower described_texts
  by (simp add: startsWith_def)

text \<open>
  C4, as stated, fails. The first step of \<open>parseWeatherMarket\<close> does not match the
  combined text of question, description and slug: the example record carries a keyword
  in its description and in its slug, the specification's test accepts it, and the code's
  test rejects it, so the record is not recognized.
\<close>

theorem keyword_in_description_counterexample:
  "specIsTemp rawMarketDescribed \<and> \<not> isTemp rawMarketDescribed \<and>
   parseWeatherMarket exampleHost 1766534400000 exampleParser rawMarketDescribed = Inr None"
  using described_isTemp described_specIsTemp by (simp add: parseWeatherMarket_def)

text \<open>
  C4, as amended. The first step of \<open>parseWeatherMarket\<close> matches the lower case of the
  record's question, or of its title when the question is absent or empty, against the
  keyword list, and returns \<open>null\<close> when no keyword occurs in it. The description and the
  slug are not read: changing them changes neither the test nor the result.
\<close>

theorem parseWeatherMarket_reads_question_only:
  "isTemp market =
     list_ex (\<lambda>kw. includesStr (toLowerCase (str_of (str_or (m_question market) (m_title market))))
                      (toLowerCase kw)) TEMP_KEYWORDS \<and>
   (\<not> isTemp market \<longrightarrow> parseWeatherMarket h now pt market = Inr None) \<and>
   isTemp (market\<lparr>m_description := d, m_slug := sl\<rparr>) = isTemp market \<and>
   parseWeatherMarket h now pt (market\<lparr>m_description := d, m_slug := sl\<rparr>) =
     parseWeatherMarket h now pt market"
proof -
  let ?m = "market\<lparr>m_description := d, m_slug := sl\<rparr>"
  have q: "questionText ?m = questionText market"
    by (simp add: questionText_def)
  have t: "isTemp ?m = isTemp market"
    by (simp add: isTemp_def q)
  have x: "extractTargetDate h now (questionText market) ?m =
             extractTargetDate h now (questionText market) market"
    by (simp add: extractTargetDate_def)
  have o: "parseOutcomes pt ?m = parseOutcomes pt market"
    by (simp add: parseOutcomes_def outcomesList_def split: option.splits)
  have f: "m_id ?m = m_id market" "m_conditionId ?m = m_conditionId market"
      "m_question ?m = m_question market" "m_title ?m = m_title market"
    by simp_all
  have same: "parseWeatherMarket h now pt ?m = parseWeatherMarket h now pt market"
    unfolding parseWeatherMarket_def Let_def q t x o f by (rule refl)
  have none: "\<not> isTemp market \<longrightarrow> parseWeatherMarket h now pt market = Inr None"
    by (simp add: parseWeatherMarket_def)
  have def: "isTemp market =
     list_ex (\<lambda>kw. includesStr (toLowerCase (str_of (str_or (m_question market) (m_title market))))
                      (toLowerCase kw)) TEMP_KEYWORDS"
    by (simp add: isTemp_def questionText_def)
  from def none t same show ?thesis by blast
qed

lemma election_text: "questionText rawMarketElection = ''who wins the nyc election?''"
  by (simp add: questionText_def rawMarketElection_def str_or_def str_of_def toLowerCase_def
        toLowerChar_simps)

lemma election_isTemp: "\<not> isTemp rawMarketElection"
  unfolding isTemp_keywords keywords_lower election_text
  by (simp add: startsWith_def)

theorem parseWeatherMarket_reads_question_only_witness:
  "\<not> isTemp rawMarketElection \<and>
   includesStr (toLowerCase (str_of (m_description rawMarketElection))) ''temperature'' \<and>
   parseWeatherMarket exampleHost 1766534400000 exampleParser rawMarketElection = Inr None"
proof -
  have d: "includesStr (toLowerCase (str_of (m_description rawMarketElection))) ''temperature''"
    by (simp add: rawMarketElection_def str_of_def toLowerCase_def toLowerChar_simps startsWith_def)
  from parseWeatherMarket_reads_question_only
         [of rawMarketElection exampleHost 1766534400000 exampleParser]
       election_isTemp
  have "parseWeatherMarket exampleHost 1766534400000 exampleParser rawMarketElection = Inr None"
    by blast
  with d election_isTemp show ?thesis by blast
qed

lemma question_matches:
  "matchFirst False (Seq (Repeat Digit 4 4) (Seq (Lit ''-'') (Seq (Repeat Digit 2 2)
       (Seq (Lit ''-'') (Repeat Digit 2 2))))) ''nyc high temp dec 25'' = None"
  "matchFirst False (Seq (Repeat Digit 1 2) (Seq (Lit ''/'') (Seq (Repeat Digit 1 2)
       (Seq (Repeat (Lit ''/'') 0 1) (Repeat Digit 0 4))))) ''nyc high temp dec 25'' = None"
  "matchFirst True (Seq (oneOf monthNames) (Seq (Plus Space) (Repeat Digit 1 2)))
       ''nyc high temp dec 25'' = None"
  "matchFirst True (Seq (oneOf monthAbbreviations)
       (Seq (Repeat (Lit ''.'') 0 1) (Seq (Plus Space) (Repeat Digit 1 2))))
       ''nyc high temp dec 25'' = Some ''dec 25''"
  by (simp_all add: regex_defs)

lemma question_patterns:
  "tryPatterns h ''nyc high temp dec 25'' datePatterns =
     (case isoDate (newDate h ''dec 25'') of Inr d \<Rightarrow> Some d | Inl e \<Rightarrow> None)"
  unfolding datePatterns_def tryPatterns.simps fst_conv snd_conv question_matches option.case
  by (rule refl)

lemma isoDate_of_day:
  assumes "t div msPerDay = z"
  shows "isoDate (Some t) =
           Inr (splitT0 (isoDay (civilFromDays z) @ ''T'' @ isoTime (nat (t mod msPerDay)) @ ''Z''))"
  using assms by (simp add: isoDate_def toISOString_def)

lemma days_2001:
  "isoDay (civilFromDays 11681) = ''2001-12-25''"
  "isoDay (civilFromDays 11680) = ''2001-12-24''"
  by (simp_all add: civilFromDays_def civilOfEra_def civilOfYearOfEra_def civilOfDayOfYear_def
        civilOfMonth_def isoYear_def isoDay_def pad2_def pad4_def digitChar_def)

lemma local_midnight_2001:
  assumes "- msPerDay < off" and "off \<le> msPerDay"
  shows "isoDate (Some (daysFromCivil 2001 12 25 * msPerDay - off)) =
           Inr (if off \<le> 0 then ''2001-12-25'' else ''2001-12-24'')"
proof (cases "off \<le> 0")
  case True
  have "(1009238400000 - off) div 86400000 = 11681"
    by (rule int_div_pos_eq [where r = "- off"]) (use assms True in \<open>simp_all add: msPerDay_def\<close>)
  then have "(daysFromCivil 2001 12 25 * msPerDay - off) div msPerDay = 11681"
    by (simp add: daysFromCivil_def msPerDay_def)
  from isoDate_of_day [OF this] True show ?thesis
    by (simp add: days_2001 splitT0_def)
next
  case False
  have "(1009238400000 - off) div 86400000 = 11680"
    by (rule int_div_pos_eq [where r = "86400000 - off"])
       (use assms False in \<open>simp_all add: msPerDay_def\<close>)
  then have "(daysFromCivil 2001 12 25 * msPerDay - off) div msPerDay = 11680"
    by (simp add: daysFromCivil_def msPerDay_def)
  from isoDate_of_day [OF this] False show ?thesis
    by (simp add: days_2001 splitT0_def)
qed

text \<open>
  Date extraction on the lower case of the question \<open>NYC High Temp Dec 25\<close>, were it
  reached: on a host that reads a month and a day without a year as local midnight of that
  day in 2001, as V8 does, the date is 2001-12-25 at and west of Greenwich and 2001-12-24
  east of it, for every clock reading.
\<close>

lemma extractTargetDate_dec_25_on_v8:
  assumes "str_of (m_endDate market) = []"
      and "newDate h ''dec 25'' = Some (daysFromCivil 2001 12 25 * msPerDay - tzOffset h)"
      and "- msPerDay < tzOffset h" and "tzOffset h \<le> msPerDay"
  shows "extractTargetDate h now ''nyc high temp dec 25'' market =
           Inr (if tzOffset h \<le> 0 then ''2001-12-25'' else ''2001-12-24'')"
proof -
  have "isoDate (newDate h ''dec 25'') =
          Inr (if tzOffset h \<le> 0 then ''2001-12-25'' else ''2001-12-24'')"
    unfolding assms(2) using assms(3,4) by (rule local_midnight_2001)
  then show ?thesis
    using assms(1) by (simp add: extractTargetDate_def question_patterns)
qed

lemma dec_25_question:
  assumes "m_question market = Some ''NYC High Temp Dec 25''"
  shows "questionText market = ''nyc high temp dec 25''"
  using assms by (simp add: questionText_def str_or_def str_of_def question_lower)

lemma dec_25_isTemp:
  assumes "m_question market = Some ''NYC High Temp Dec 25''"
  shows "\<not> isTemp market"
  unfolding isTemp_keywords keywords_lower dec_25_question [OF assms]
  by (simp add: startsWith_def)

text \<open>
  C7, as stated, fails. The record with the question \<open>NYC High Temp Dec 25\<close> and no end
  date gets no target date: the question holds none of the temperature keywords and
  \<open>parseWeatherMarket\<close> returns \<open>null\<close> before date extraction. Date extraction on that
  question, on the example host, would give a day of 2001 and not 2025-12-25.
\<close>

theorem high_temp_dec_25_counterexample:
  "m_question rawMarketDec25 = Some ''NYC High Temp Dec 25'' \<and>
   m_endDate rawMarketDec25 = None \<and>
   parseWeatherMarket exampleHost 1766534400000 exampleParser rawMarketDec25 = Inr None \<and>
   extractTargetDate exampleHost 1766534400000 (questionText rawMarketDec25) rawMarketDec25 =
     Inr ''2001-12-25''"
proof -
  have q: "m_question rawMarketDec25 = Some ''NYC High Temp Dec 25''"
    and e: "m_endDate rawMarketDec25 = None"
    by (simp_all add: rawMarketDec25_def)
  have n: "parseWeatherMarket exampleHost 1766534400000 exampleParser rawMarketDec25 = Inr None"
    using dec_25_isTemp [OF q] by (simp add: parseWeatherMarket_def)
  have a: "str_of (m_endDate rawMarketDec25) = []"
    by (simp add: e str_of_def)
  have b: "newDate exampleHost ''dec 25'' =
     Some (daysFromCivil 2001 12 25 * msPerDay - tzOffset exampleHost)"
    by (simp add: exampleHost_def daysFromCivil_def msPerDay_def)
  have c: "- msPerDay < tzOffset exampleHost" and d: "tzOffset exampleHost \<le> msPerDay"
    and z: "tzOffset exampleHost \<le> 0"
    by (simp_all add: exampleHost_def msPerDay_def)
  from extractTargetDate_dec_25_on_v8 [OF a b c d, of 1766534400000] z
  have "extractTargetDate exampleHost 1766534400000 (questionText rawMarketDec25)
          rawMarketDec25 = Inr ''2001-12-25''"
    by (simp add: dec_25_question [OF q])
  with q e n show ?thesis by blast
qed

text \<open>
  C7, as amended. A record whose question is \<open>NYC High Temp Dec 25\<close>, with or without an
  end date, is not a recognized temperature market: the lower case of the question holds
  none of the keywords, and \<open>parseWeatherMarket\<close> returns \<open>null\<close> at its first step, so
  date extraction is not reached. Of the four date patterns, in their order, only the last,
  that of the abbreviated month names, matches the question text, and it matches \<open>dec 25\<close>.
\<close>

theorem parseWeatherMarket_high_temp_dec_25:
  assumes "m_question market = Some ''NYC High Temp Dec 25''"
  shows "questionText market = ''nyc high temp dec 25'' \<and>
         \<not> isTemp market \<and>
         parseWeatherMarket h now pt market = Inr None \<and>
         map (\<lambda>pat. matchFirst (fst pat) (snd pat) (questionText market)) datePatterns =
           [None, None, None, Some ''dec 25'']"
proof -
  note q = dec_25_question [OF assms]
  note t = dec_25_isTemp [OF assms]
  from t have n: "parseWeatherMarket h now pt market = Inr None"
    by (simp add: parseWeatherMarket_def)
  have m: "map (\<lambda>pat. matchFirst (fst pat) (snd pat) (questionText market)) datePatterns =
           [None, None, None, Some ''dec 25'']"
    unfolding q datePatterns_def list.map fst_conv snd_conv question_matches by (rule refl)
  from q t n m show ?thesis by blast
qed

theorem parseWeatherMarket_high_temp_dec_25_witness:
  "m_question datedMarketDec25 = Some ''NYC High Temp Dec 25'' \<and>
   m_endDate datedMarketDec25 = Some ''2025-12-25T12:00:00Z'' \<and>
   \<not> isTemp datedMarketDec25 \<and>
   parseWeatherMarket exampleHost 1766534400000 exampleParser datedMarketDec25 = Inr None \<and>
   map (\<lambda>pat. matchFirst (fst pat) (snd pat) (questionText datedMarketDec25)) datePatterns =
     [None, None, None, Some ''dec 25'']"
proof -
  have q: "m_question datedMarketDec25 = Some ''NYC High Temp Dec 25''"
    and e: "m_endDate datedMarketDec25 = Some ''2025-12-25T12:00:00Z''"
    by (simp_all add: datedMarketDec25_def rawMarketDec25_def)
  from parseWeatherMarket_high_temp_dec_25 [OF q, of exampleHost 1766534400000 exampleParser] q e
  show ?thesis by blast
qed

lemma updateEach_map:
  "updateEach gp outs =
     map (\<lambda>out. case gp (tokenId out) of
                   Inr p \<Rightarrow> out\<lparr>price := (if num_lt (Num 0) p then p else price out)\<rparr>
                 | Inl e \<Rightarrow> out) outs"
  by (induction outs) simp_all

lemma parseEach_member:
  assumes "out \<in> set outs"
      and "pt (str_of (str_or (str_or (r_outcome out) (r_name out)) (r_title out))) = Some b"
  shows "\<lparr>tokenId = str_or (str_or (r_tokenId out) (r_token_id out)) (r_id out), bucket = b,
          price = parseFloat (js_or (js_or (r_price out) (r_lastTradePrice out)) (JString ''0.5''))\<rparr>
           \<in> set (parseEach pt outs)"
  using assms by (induction outs) (auto split: option.splits)

text \<open>
  C10. A raw outcome whose label parses to a bucket and which carries neither \<open>price\<close> nor
  \<open>lastTradePrice\<close> is kept by \<open>parseOutcomes\<close>, with the price 0.5. A price of exactly 0
  fetched by \<open>updateMarketPrices\<close> is discarded: the outcome keeps the price it had.
\<close>

theorem parseOutcomes_default_price:
  "(out \<in> set (outcomesList market) \<and>
    pt (str_of (str_or (str_or (r_outcome out) (r_name out)) (r_title out))) = Some b \<and>
    r_price out = Undefined \<and> r_lastTradePrice out = Undefined \<longrightarrow>
      \<lparr>tokenId = str_or (str_or (r_tokenId out) (r_token_id out)) (r_id out), bucket = b,
       price = Num 0.5\<rparr> \<in> set (parseOutcomes pt market)) \<and>
   (i < length (outcomes m) \<and> gp (tokenId (outcomes m ! i)) = Inr (Num 0) \<longrightarrow>
      (\<exists>m1. updateMarketPrices gp m = Inr m1 \<and> outcomes m1 ! i = outcomes m ! i \<and>
             price (outcomes m1 ! i) = price (outcomes m ! i)))"
proof -
  have a: "out \<in> set (outcomesList market) \<and>
    pt (str_of (str_or (str_or (r_outcome out) (r_name out)) (r_title out))) = Some b \<and>
    r_price out = Undefined \<and> r_lastTradePrice out = Undefined \<longrightarrow>
      \<lparr>tokenId = str_or (str_or (r_tokenId out) (r_token_id out)) (r_id out), bucket = b,
       price = Num 0.5\<rparr> \<in> set (parseOutcomes pt market)"
  proof
    assume h: "out \<in> set (outcomesList market) \<and>
      pt (str_of (str_or (str_or (r_outcome out) (r_name out)) (r_title out))) = Some b \<and>
      r_price out = Undefined \<and> r_lastTradePrice out = Undefined"
    then have "js_or (js_or (r_price out) (r_lastTradePrice out)) (JString ''0.5'') = JString ''0.5''"
      by (simp add: js_or_def)
    with parseEach_member [of out "outcomesList market" pt b] h parseFloat_default
    show "\<lparr>tokenId = str_or (str_or (r_tokenId out) (r_token_id out)) (r_id out), bucket = b,
       price = Num 0.5\<rparr> \<in> set (parseOutcomes pt market)"
      by (simp add: parseOutcomes_def)
  qed
  have b: "i < length (outcomes m) \<and> gp (tokenId (outcomes m ! i)) = Inr (Num 0) \<longrightarrow>
      (\<exists>m1. updateMarketPrices gp m = Inr m1 \<and> outcomes m1 ! i = outcomes m ! i \<and>
             price (outcomes m1 ! i) = price (outcomes m ! i))"
    by (simp add: updateMarketPrices_def updateEach_map)
  from a b show ?thesis by blast
qed

theorem parseOutcomes_default_price_witness:
  "rawOutcomeA \<in> set (outcomesList rawMarketDec25) \<and>
   r_price rawOutcomeA = Undefined \<and> r_lastTradePrice rawOutcomeA = Undefined \<and>
   \<lparr>tokenId = Some ''tokenA'', bucket = \<lparr>lowerBound = Some 73, upperBound = Some 77\<rparr>,
    price = Num 0.5\<rparr> \<in> set (parseOutcomes exampleParser rawMarketDec25) \<and>
   zeroPrices (tokenId (outcomes exampleMarket ! 0)) = Inr (Num 0) \<and>
   (\<exists>m1. updateMarketPrices zeroPrices exampleMarket = Inr m1 \<and>
          outcomes m1 ! 0 = outcomeA \<and> price (outcomes m1 ! 0) = Num 0.95)"
proof -
  have a: "rawOutcomeA \<in> set (outcomesList rawMarketDec25)"
    by (simp add: outcomesList_def rawMarketDec25_def)
  have l: "exampleParser (str_of (str_or (str_or (r_outcome rawOutcomeA) (r_name rawOutcomeA))
              (r_title rawOutcomeA))) = Some \<lparr>lowerBound = Some 73, upperBound = Some 77\<rparr>"
    by (simp add: rawOutcomeA_def str_or_def str_of_def exampleParser_def)
  have u: "r_price rawOutcomeA = Undefined" "r_lastTradePrice rawOutcomeA = Undefined"
    by (simp_all add: rawOutcomeA_def)
  have t: "str_or (str_or (r_tokenId rawOutcomeA) (r_token_id rawOutcomeA)) (r_id rawOutcomeA) =
             Some ''tokenA''"
    by (simp add: rawOutcomeA_def str_or_def)
  have z: "0 < length (outcomes exampleMarket)"
      "zeroPrices (tokenId (outcomes exampleMarket ! 0)) = Inr (Num 0)"
      "outcomes exampleMarket ! 0 = outcomeA" "price outcomeA = Num 0.95"
    by (simp_all add: exampleMarket_def zeroPrices_def outcomeA_def)
  note inst = parseOutcomes_default_price
    [of rawOutcomeA rawMarketDec25 exampleParser "\<lparr>lowerBound = Some 73, upperBound = Some 77\<rparr>"
        0 exampleMarket zeroPrices]
  from inst a l u t have p1: "\<lparr>tokenId = Some ''tokenA'',
      bucket = \<lparr>lowerBound = Some 73, upperBound = Some 77\<rparr>,
      price = Num 0.5\<rparr> \<in> set (parseOutcomes exampleParser rawMarketDec25)"
    by simp
  from inst z have p2: "\<exists>m1. updateMarketPrices zeroPrices exampleMarket = Inr m1 \<and>
          outcomes m1 ! 0 = outcomeA \<and> price (outcomes m1 ! 0) = Num 0.95"
    by simp
  from a u p1 z(2) p2 show ?thesis by blast
qed

text \<open>
  C8. \<open>updateMarketPrices\<close> never fails. It returns the market with the same outcomes in
  the same order: an outcome whose price call throws is unchanged, and every other
  outcome has the fetched price when that is positive, whatever happens to the others.
\<close>

theorem updateMarketPrices_never_fails:
  "\<exists>m1. updateMarketPrices gp m = Inr m1 \<and>
         m1 = m\<lparr>outcomes := outcomes m1\<rparr> \<and>
         length (outcomes m1) = length (outcomes m) \<and>
         (\<forall>i < length (outcomes m).
            (\<forall>e. gp (tokenId (outcomes m ! i)) = Inl e \<longrightarrow>
                   outcomes m1 ! i = outcomes m ! i) \<and>
            (\<forall>p. gp (tokenId (outcomes m ! i)) = Inr p \<longrightarrow>
                   outcomes m1 ! i =
                     (outcomes m ! i)\<lparr>price := (if num_lt (Num 0) p then p
                                                  else price (outcomes m ! i))\<rparr>))"
  by (auto simp add: updateMarketPrices_def updateEach_map)

theorem updateMarketPrices_never_fails_witness:
  "examplePrices (tokenId (outcomes exampleMarket ! 0)) = Inl (Error ''timeout'') \<and>
   examplePrices (tokenId (outcomes exampleMarket ! 1)) = Inr (Num 0.6) \<and>
   updateMarketPrices examplePrices exampleMarket =
     Inr (exampleMarket\<lparr>outcomes := [outcomeA, outcomeB\<lparr>price := Num 0.6\<rparr>]\<rparr>)"
proof -
  have a: "examplePrices (tokenId (outcomes exampleMarket ! 0)) = Inl (Error ''timeout'')"
    and b: "examplePrices (tokenId (outcomes exampleMarket ! 1)) = Inr (Num 0.6)"
    by (simp_all add: examplePrices_def exampleMarket_def outcomeA_def outcomeB_def)
  obtain m1 where m1: "updateMarketPrices examplePrices exampleMarket = Inr m1"
      "m1 = exampleMarket\<lparr>outcomes := outcomes m1\<rparr>"
      "length (outcomes m1) = length (outcomes exampleMarket)"
      "\<forall>i < length (outcomes exampleMarket).
            (\<forall>e. examplePrices (tokenId (outcomes exampleMarket ! i)) = Inl e \<longrightarrow>
                   outcomes m1 ! i = outcomes exampleMarket ! i) \<and>
            (\<forall>p. examplePrices (tokenId (outcomes exampleMarket ! i)) = Inr p \<longrightarrow>
                   outcomes m1 ! i =
                     (outcomes exampleMarket ! i)\<lparr>price := (if num_lt (Num 0) p then p
                                                  else price (outcomes exampleMarket ! i))\<rparr>)"
    using updateMarketPrices_never_fails [of examplePrices exampleMarket] by blast
  have len: "length (outcomes m1) = 2"
    using m1(3) by (simp add: exampleMarket_def)
  have i0: "outcomes m1 ! 0 = outcomeA"
    using m1(4) a by (simp add: exampleMarket_def)
  have i1: "outcomes m1 ! 1 = outcomeB\<lparr>price := Num 0.6\<rparr>"
    using m1(4) b by (auto simp add: exampleMarket_def)
  have "outcomes m1 = [outcomeA, outcomeB\<lparr>price := Num 0.6\<rparr>]"
    using len i0 i1 by (simp add: list_eq_iff_nth_eq less_Suc_eq numeral_2_eq_2)
  with m1(1,2) a b show ?thesis by simp
qed

lemma searchBroadly_total: "\<exists>found. searchBroadly h now pt g = Inr found"
  by (cases "searchKeywords h now pt g [] [''temperature'', ''high'', ''weather'']")
     (simp_all add: searchBroadly_def)

lemma findTemperatureMarkets_total: "\<exists>found. findTemperatureMarkets h now pt g = Inr found"
proof (cases "tagSearch g")
  case (Threw e)
  then show ?thesis using searchBroadly_total by (simp add: findTemperatureMarkets_def)
next
  case (NotOk st msg)
  then show ?thesis using searchBroadly_total by (simp add: findTemperatureMarkets_def)
next
  case (Ok data)
  then show ?thesis
    using searchBroadly_total
    by (cases "parseAll h now pt [] data") (simp_all add: findTemperatureMarkets_def)
qed

lemma findTemperatureMarkets_failed:
  assumes "primaryQueryFailed h now pt g" and "fallbackQueryFailed h now pt g"
  shows "findTemperatureMarkets h now pt g = Inr []"
proof -
  from assms(2) have b: "searchBroadly h now pt g = Inr []"
    by (simp add: fallbackQueryFailed_def searchBroadly_def split: sum.splits)
  from assms(1) b show ?thesis
    by (simp add: primaryQueryFailed_def findTemperatureMarkets_def split: fetched.splits sum.splits)
qed

lemma analyzeMarkets_total: "\<exists>ms opps. analyzeMarkets w fm found = Inr (ms, opps)"
proof (induction found)
  case Nil
  then show ?case by simp
next
  case (Cons m rest)
  then obtain ms opps where "analyzeMarkets w fm rest = Inr (ms, opps)" by blast
  then show ?case
    by (cases "fm (cityCode m)") (simp_all add: updateMarketPrices_def)
qed

lemma offline_failed:
  "primaryQueryFailed (jsHost offlineWorld) (clock offlineWorld) (parseTempBucket offlineWorld)
     (gammaApi offlineWorld)"
  "fallbackQueryFailed (jsHost offlineWorld) (clock offlineWorld) (parseTempBucket offlineWorld)
     (gammaApi offlineWorld)"
  by (simp_all add: primaryQueryFailed_def fallbackQueryFailed_def offlineWorld_def
        unreachableGamma_def)

lemma offline_dates:
  "isoDate (getTomorrowDate (jsHost offlineWorld) (clock offlineWorld)) = Inr ''2025-12-24''"
  "toISOString (Some (clock offlineWorld)) = Inr ''2025-12-24T00:00:00.000Z''"
  by (simp_all add: offlineWorld_def exampleHost_def getTomorrowDate_def localMidnight_def
        addOneDay_def date_defs)

text \<open>
  C5, as stated, fails. A scan does not report the failure of discovery: with the exchange
  unreachable, the primary query and the broader query both fail, and the scan returns an
  empty result, not an error.
\<close>

theorem discovery_failure_counterexample:
  "primaryQueryFailed (jsHost offlineWorld) (clock offlineWorld) (parseTempBucket offlineWorld)
     (gammaApi offlineWorld) \<and>
   fallbackQueryFailed (jsHost offlineWorld) (clock offlineWorld) (parseTempBucket offlineWorld)
     (gammaApi offlineWorld) \<and>
   scan offlineWorld newClient None =
     (Inr \<lparr>markets = [], forecasts = Map.empty, opportunities = [],
           scannedAt = ''2025-12-24T00:00:00.000Z''\<rparr>, newClient)"
proof -
  have "findTemperatureMarkets (jsHost offlineWorld) (clock offlineWorld)
          (parseTempBucket offlineWorld) (gammaApi offlineWorld) = Inr []"
    using offline_failed by (rule findTemperatureMarkets_failed)
  then have "scan offlineWorld newClient None =
     (Inr \<lparr>markets = [], forecasts = Map.empty, opportunities = [],
           scannedAt = ''2025-12-24T00:00:00.000Z''\<rparr>, newClient)"
    by (simp add: scan_def offline_dates)
  with offline_failed show ?thesis by simp
qed

text \<open>
  C5, as amended. Discovery never throws, and a scan whose target date is a valid date,
  or is left out, never aborts with an error. When the primary query and the broader
  keyword query have both failed, discovery has found no market and the scan completes
  with an empty result, the client untouched. A city whose forecast fails, a token whose
  price call fails and a record that does not parse do not make the scan fail either.
\<close>

theorem scan_completes:
  assumes "target \<noteq> Some None"
  shows "(\<exists>found. findTemperatureMarkets (jsHost w) (clock w) (parseTempBucket w) (gammaApi w) =
                    Inr found) \<and>
         (\<exists>r c1. scan w c target = (Inr r, c1)) \<and>
         (primaryQueryFailed (jsHost w) (clock w) (parseTempBucket w) (gammaApi w) \<and>
          fallbackQueryFailed (jsHost w) (clock w) (parseTempBucket w) (gammaApi w) \<longrightarrow>
            (\<exists>stamp. scan w c target =
               (Inr \<lparr>markets = [], forecasts = Map.empty, opportunities = [],
                     scannedAt = stamp\<rparr>, c)))"
proof -
  let ?scanDate = "case target of Some d \<Rightarrow> d | None \<Rightarrow> getTomorrowDate (jsHost w) (clock w)"
  let ?find = "findTemperatureMarkets (jsHost w) (clock w) (parseTempBucket w) (gammaApi w)"
  from assms obtain t where t: "?scanDate = Some t"
    by (cases target) (auto simp add: getTomorrowDate_def)
  obtain day where day: "isoDate ?scanDate = Inr day"
    unfolding t using isoDate_Some by blast
  obtain stamp where stamp: "toISOString (Some (clock w)) = Inr stamp"
    by (simp add: toISOString_def)
  obtain found where found: "?find = Inr found"
    using findTemperatureMarkets_total by blast
  have scan_eq: "scan w c target =
      (if found = [] then
         (Inr \<lparr>markets = [], forecasts = Map.empty, opportunities = [], scannedAt = stamp\<rparr>, c)
       else
         (case fetchForecasts w ?scanDate c Map.empty (distinctInOrder (map cityCode found)) of
            (fm, c1) \<Rightarrow>
              (case analyzeMarkets w fm found of
                 Inl e \<Rightarrow> (Inl e, c1)
               | Inr (ms, opps) \<Rightarrow>
                   (Inr \<lparr>markets = ms, forecasts = fm, opportunities = sortByEdge opps,
                         scannedAt = stamp\<rparr>, c1))))"
    by (simp add: scan_def Let_def day stamp found)
  have completes: "\<exists>r c1. scan w c target = (Inr r, c1)"
  proof (cases "found = []")
    case True
    with scan_eq show ?thesis by simp
  next
    case False
    obtain fm c1 where ff:
        "fetchForecasts w ?scanDate c Map.empty (distinctInOrder (map cityCode found)) = (fm, c1)"
      by (cases "fetchForecasts w ?scanDate c Map.empty (distinctInOrder (map cityCode found))")
    obtain ms opps where "analyzeMarkets w fm found = Inr (ms, opps)"
      using analyzeMarkets_total by blast
    with False ff scan_eq show ?thesis by simp
  qed
  have failed: "primaryQueryFailed (jsHost w) (clock w) (parseTempBucket w) (gammaApi w) \<and>
          fallbackQueryFailed (jsHost w) (clock w) (parseTempBucket w) (gammaApi w) \<longrightarrow>
            (\<exists>stamp. scan w c target =
               (Inr \<lparr>markets = [], forecasts = Map.empty, opportunities = [],
                     scannedAt = stamp\<rparr>, c))"
  proof
    assume "primaryQueryFailed (jsHost w) (clock w) (parseTempBucket w) (gammaApi w) \<and>
          fallbackQueryFailed (jsHost w) (clock w) (parseTempBucket w) (gammaApi w)"
    then have "?find = Inr []" using findTemperatureMarkets_failed by blast
    with found have "found = []" by simp
    with scan_eq show "\<exists>stamp. scan w c target =
               (Inr \<lparr>markets = [], forecasts = Map.empty, opportunities = [],
                     scannedAt = stamp\<rparr>, c)"
      by simp
  qed
  from found completes failed show ?thesis by blast
qed

theorem scan_completes_witness:
  "Some (Some 1766620800000) \<noteq> Some (None :: int option) \<and>
   (\<exists>stamp. scan offlineWorld fetchedClient (Some (Some 1766620800000)) =
      (Inr \<lparr>markets = [], forecasts = Map.empty, opportunities = [], scannedAt = stamp\<rparr>,
       fetchedClient))"
proof -
  have v: "Some (Some 1766620800000) \<noteq> Some (None :: int option)" by simp
  from scan_completes [OF v, of offlineWorld fetchedClient] offline_failed
  show ?thesis by blast
qed

end
